theory Spec2Isabelle
  imports Main "HOL-Library.Word"
begin

section \<open>Data model\<close>

text \<open>A Node \<^verbatim>\<open>Buffer\<close> is a sequence of bytes.\<close>

type_synonym byte = "8 word"
type_synonym buffer = "byte list"

text \<open>
  \<^verbatim>\<open>buffer[i]\<close>: reading a \<^verbatim>\<open>Buffer\<close> past its end yields \<^verbatim>\<open>undefined\<close>
  (here \<open>None\<close>); it does not throw.
\<close>

definition at :: "buffer \<Rightarrow> nat \<Rightarrow> byte option" where
  "at b i = (if i < length b then Some (b ! i) else None)"

section \<open>MIME sniffing (\<^verbatim>\<open>detectMimeType\<close>)\<close>

text \<open>
  \<^verbatim>\<open>buffer[i] === k\<close> is false when \<^verbatim>\<open>buffer[i]\<close> is \<^verbatim>\<open>undefined\<close>, and
  \<^verbatim>\<open>&&\<close> evaluates left to right.
\<close>

definition detectMimeType :: "buffer \<Rightarrow> string" where
  "detectMimeType b =
     (if at b 0 = Some 0xff \<and> at b 1 = Some 0xd8 then ''image/jpeg''
      else if at b 0 = Some 0x89 \<and> at b 1 = Some 0x50 \<and> at b 2 = Some 0x4e \<and> at b 3 = Some 0x47
        then ''image/png''
      else if at b 0 = Some 0x47 \<and> at b 1 = Some 0x49 \<and> at b 2 = Some 0x46 then ''image/gif''
      else if at b 0 = Some 0x52 \<and> at b 1 = Some 0x49 \<and> at b 2 = Some 0x46 \<and> at b 3 = Some 0x46
        then ''image/webp''
      else ''image/png'')"

text \<open>
  The same function in the words of the specification: a table of four magic-number
  signatures in priority order, the first signature that the buffer starts with decides,
  and \<^verbatim>\<open>image/png\<close> is the default.
\<close>

definition signatures :: "(buffer \<times> string) list" where
  "signatures =
     [([0xff, 0xd8], ''image/jpeg''),
      ([0x89, 0x50, 0x4e, 0x47], ''image/png''),
      ([0x47, 0x49, 0x46], ''image/gif''),
      ([0x52, 0x49, 0x46, 0x46], ''image/webp'')]"

fun starts_with :: "'a list \<Rightarrow> 'a list \<Rightarrow> bool" where
  "starts_with xs [] = True"
| "starts_with [] (p # ps) = False"
| "starts_with (x # xs) (p # ps) = (x = p \<and> starts_with xs ps)"

fun first_match :: "(buffer \<times> string) list \<Rightarrow> buffer \<Rightarrow> string" where
  "first_match [] b = ''image/png''"
| "first_match ((sig, mime) # rest) b = (if starts_with b sig then mime else first_match rest b)"

definition detectMimeType_spec :: "buffer \<Rightarrow> string" where
  "detectMimeType_spec b = first_match signatures b"

section \<open>Prompt builder (\<^verbatim>\<open>PromptBuilder\<close>)\<close>

text \<open>
  \<^verbatim>\<open>ProductType\<close> is a string enum: its members are the strings below, and the
  \<^verbatim>\<open>switch\<close> of \<^verbatim>\<open>buildPrompt\<close> compares strings. Any other string is a run-time
  value outside the enum, which the \<^verbatim>\<open>default\<close> branch handles.
\<close>

type_synonym ProductType = string

definition HOODIE :: ProductType where "HOODIE = ''hoodie''"
definition FACECAP :: ProductType where "FACECAP = ''facecap''"
definition SHIRT :: ProductType where "SHIRT = ''shirt''"
definition MUG :: ProductType where "MUG = ''mug''"
definition STICKER_PAD :: ProductType where "STICKER_PAD = ''sticker_pad''"
definition TANK_TOP :: ProductType where "TANK_TOP = ''tank_top''"
definition LONG_SLEEVE :: ProductType where "LONG_SLEEVE = ''long_sleeve''"
definition SWEATSHIRT :: ProductType where "SWEATSHIRT = ''sweatshirt''"
definition JACKET :: ProductType where "JACKET = ''jacket''"
definition TOTE_BAG :: ProductType where "TOTE_BAG = ''tote_bag''"

definition product_types :: "ProductType list" where
  "product_types =
     [HOODIE, FACECAP, SHIRT, MUG, STICKER_PAD, TANK_TOP, LONG_SLEEVE, SWEATSHIRT, JACKET, TOTE_BAG]"

text \<open>
  \<^verbatim>\<open>names[productType] || 'product'\<close>. \<^verbatim>\<open>names\<close> is an object literal with the ten
  keys: a key of its own gives its text, and any other key is looked up in
  \<^verbatim>\<open>Object.prototype\<close>. The members found there are truthy, so the template prints them:
  a built-in method as its function text, the prototype object that \<^verbatim>\<open>__proto__\<close> yields as
  \<^verbatim>\<open>[object Object]\<close>. Every other key is \<^verbatim>\<open>undefined\<close> and gives \<^verbatim>\<open>product\<close>.
\<close>

definition names :: "(ProductType \<times> string) list" where
  "names =
     [(HOODIE, ''hoodie''),
      (FACECAP, ''face cap or baseball cap''),
      (SHIRT, ''t-shirt or shirt''),
      (MUG, ''ceramic mug''),
      (STICKER_PAD, ''sticker pad or notepad''),
      (TANK_TOP, ''tank top''),
      (LONG_SLEEVE, ''long sleeve shirt''),
      (SWEATSHIRT, ''sweatshirt''),
      (JACKET, ''jacket''),
      (TOTE_BAG, ''tote bag'')]"

definition prototype_methods :: "string list" where
  "prototype_methods =
     [''__defineGetter__'', ''__defineSetter__'', ''hasOwnProperty'', ''__lookupGetter__'',
      ''__lookupSetter__'', ''isPrototypeOf'', ''propertyIsEnumerable'', ''toString'',
      ''valueOf'', ''toLocaleString'']"

definition inherited_member :: "string \<Rightarrow> string option" where
  "inherited_member key =
     (if key = ''__proto__'' then Some ''[object Object]''
      else if key = ''constructor'' then Some ''function Object() { [native code] }''
      else if key \<in> set prototype_methods then Some (''function '' @ key @ ''() { [native code] }'')
      else None)"

definition getProductName :: "ProductType \<Rightarrow> string" where
  "getProductName productType =
     (case map_of names productType of
        Some name \<Rightarrow> name
      | None \<Rightarrow> (case inherited_member productType of Some printed \<Rightarrow> printed | None \<Rightarrow> ''product''))"

text \<open>
  The six templates. A template literal is the concatenation of its text pieces and its
  \<^verbatim>\<open>${...}\<close> expressions; the text is cut at line ends and at spaces only for layout.
  \<^verbatim>\<open>colorDescription ? a : b\<close> tests a string: the empty string is falsy.
\<close>

definition buildClothingPrompt :: "ProductType \<Rightarrow> string \<Rightarrow> string \<Rightarrow> string" where
  "buildClothingPrompt productType colorDescription designPreservation =
     (let productName = getProductName productType in
       ''Create a high-quality, professional product photography image of a '' @
       productName @
       colorDescription @
       '' hanging from an elegant golden or wooden hanger in a luxury boutique setting. \<newline>'' @
       ''\<newline>'' @
       ''Requirements:\<newline>'' @
       ''- The '' @
       productName @
       '' should be displayed hanging from a premium golden or wooden hanger with a slight, '' @
       ''natural tilt (approximately 15-20 degrees) that showcases the product beautifully\<newline>'' @
       ''- The focus should be entirely on the '' @
       productName @
       '', which should appear as if it's made from high-quality fabric\<newline>'' @
       ''- The background should suggest an upscale boutique environment - think soft, '' @
       ''professional lighting, elegant textures, and a sophisticated atmosphere\<newline>'' @
       ''- The image should look like professional product photography that you would see in a '' @
       ''high-end fashion catalog or boutique website\<newline>'' @
       ''- The lighting should be soft and flattering, highlighting the product's details, '' @
       ''fabric texture, and fit\<newline>'' @
       ''- The '' @
       productName @
       '' should appear three-dimensional and realistic, as if it's an actual physical garment\<newline>'' @
       ''- The overall aesthetic should be clean, minimal, and luxurious'' @
       designPreservation @
       ''\<newline>'' @
       ''- The hanger should be visible but not distract from the product\<newline>'' @
       ''- The image should have a shallow depth of field, keeping the product in sharp focus '' @
       ''while the background is slightly blurred\<newline>'' @
       ''- Show the fabric texture and quality - it should look premium and well-made\<newline>'' @
       ''- Color accuracy is important - maintain the exact colors of the product'' @
       (if colorDescription \<noteq> [] then '', especially the specified color'' else []) @
       ''\<newline>'' @
       ''\<newline>'' @
       ''Style: Professional product photography, boutique aesthetic, luxury fashion catalog, '' @
       ''high-end e-commerce, clean and minimal, sophisticated lighting, realistic fabric '' @
       ''texture, premium quality.'')"

definition buildCapPrompt :: "string \<Rightarrow> string \<Rightarrow> string" where
  "buildCapPrompt colorDescription designPreservation =
     ''Create a high-quality, professional product photography image of a face cap or baseball '' @
     ''cap'' @
     colorDescription @
     '' displayed on an elegant cap stand or mannequin head in a luxury boutique setting.\<newline>'' @
     ''\<newline>'' @
     ''Requirements:\<newline>'' @
     ''- The cap should be displayed on a premium cap stand, wooden display head, or elegant '' @
     ''mannequin head that showcases the cap beautifully\<newline>'' @
     ''- Position the cap at a slight angle (approximately 15-20 degrees) to show both the '' @
     ''front design and the overall shape\<newline>'' @
     ''- The focus should be entirely on the cap, which should appear as if it's made from '' @
     ''high-quality materials\<newline>'' @
     ''- The background should suggest an upscale boutique or lifestyle store environment - '' @
     ''think soft, professional lighting, elegant textures, and a sophisticated atmosphere\<newline>'' @
     ''- The image should look like professional product photography that you would see in a '' @
     ''high-end sports or lifestyle brand catalog\<newline>'' @
     ''- The lighting should be soft and flattering, highlighting the cap's details, material '' @
     ''texture, and structure\<newline>'' @
     ''- The cap should appear three-dimensional and realistic, as if it's an actual physical '' @
     ''item\<newline>'' @
     ''- The overall aesthetic should be clean, minimal, and luxurious'' @
     designPreservation @
     ''\<newline>'' @
     ''- The display stand should be visible but not distract from the cap\<newline>'' @
     ''- The image should have a shallow depth of field, keeping the cap in sharp focus while '' @
     ''the background is slightly blurred\<newline>'' @
     ''- Show the material quality - it should look premium and well-constructed\<newline>'' @
     ''- Color accuracy is important - maintain the exact colors of the cap'' @
     (if colorDescription \<noteq> [] then '', especially the specified color'' else []) @
     ''\<newline>'' @
     ''\<newline>'' @
     ''Style: Professional product photography, boutique aesthetic, luxury sports/lifestyle '' @
     ''catalog, high-end e-commerce, clean and minimal, sophisticated lighting, realistic '' @
     ''material texture, premium quality.''"

definition buildMugPrompt :: "string \<Rightarrow> string \<Rightarrow> string" where
  "buildMugPrompt colorDescription designPreservation =
     ''Create a high-quality, professional product photography image of a ceramic mug'' @
     colorDescription @
     '' displayed on an elegant surface in a luxury boutique or modern home setting.\<newline>'' @
     ''\<newline>'' @
     ''Requirements:\<newline>'' @
     ''- The mug should be displayed on a beautiful surface such as a marble countertop, '' @
     ''wooden table, or elegant ceramic coaster in a sophisticated setting\<newline>'' @
     ''- Position the mug at a slight angle (approximately 20-30 degrees) to showcase both the '' @
     ''front design and the overall shape of the mug\<newline>'' @
     ''- The focus should be entirely on the mug, which should appear as if it's made from '' @
     ''high-quality ceramic\<newline>'' @
     ''- The background should suggest an upscale boutique, modern kitchen, or lifestyle store '' @
     ''environment - think soft, professional lighting, elegant textures, and a sophisticated '' @
     ''atmosphere\<newline>'' @
     ''- The image should look like professional product photography that you would see in a '' @
     ''high-end home goods catalog or boutique website\<newline>'' @
     ''- The lighting should be soft and flattering, highlighting the mug's design, ceramic '' @
     ''texture, and shape\<newline>'' @
     ''- The mug should appear three-dimensional and realistic, as if it's an actual physical '' @
     ''item\<newline>'' @
     ''- The overall aesthetic should be clean, minimal, and luxurious'' @
     designPreservation @
     ''\<newline>'' @
     ''- The surface should complement the mug without distracting from it - consider adding '' @
     ''subtle elements like natural light, soft shadows, or minimal props\<newline>'' @
     ''- The image should have a shallow depth of field, keeping the mug in sharp focus while '' @
     ''the background is slightly blurred\<newline>'' @
     ''- Show the ceramic quality - it should look premium and well-crafted\<newline>'' @
     ''- Color accuracy is important - maintain the exact colors of the mug'' @
     (if colorDescription \<noteq> [] then '', especially the specified color'' else []) @
     ''\<newline>'' @
     ''\<newline>'' @
     ''Style: Professional product photography, boutique aesthetic, luxury home goods catalog, '' @
     ''high-end e-commerce, clean and minimal, sophisticated lighting, realistic ceramic '' @
     ''texture, premium quality, lifestyle photography.''"

definition buildStickerPadPrompt :: "string \<Rightarrow> string \<Rightarrow> string" where
  "buildStickerPadPrompt colorDescription designPreservation =
     ''Create a high-quality, professional product photography image of a sticker pad or '' @
     ''notepad'' @
     colorDescription @
     '' displayed on an elegant desk or table surface in a luxury boutique or modern workspace '' @
     ''setting.\<newline>'' @
     ''\<newline>'' @
     ''Requirements:\<newline>'' @
     ''- The sticker pad should be displayed on a beautiful surface such as a wooden desk, '' @
     ''marble table, or elegant workspace setting\<newline>'' @
     ''- Position the pad at a slight angle (approximately 15-25 degrees) to showcase the '' @
     ''cover design and give it a natural, inviting appearance\<newline>'' @
     ''- The focus should be entirely on the sticker pad, which should appear as if it's made '' @
     ''from high-quality paper and materials\<newline>'' @
     ''- The background should suggest an upscale boutique, modern office, or lifestyle store '' @
     ''environment - think soft, professional lighting, elegant textures, and a sophisticated '' @
     ''atmosphere\<newline>'' @
     ''- The image should look like professional product photography that you would see in a '' @
     ''high-end stationery or office supplies catalog\<newline>'' @
     ''- The lighting should be soft and flattering, highlighting the pad's design, paper '' @
     ''texture, and quality\<newline>'' @
     ''- The sticker pad should appear three-dimensional and realistic, as if it's an actual '' @
     ''physical item\<newline>'' @
     ''- The overall aesthetic should be clean, minimal, and luxurious'' @
     designPreservation @
     ''\<newline>'' @
     ''- The surface should complement the pad without distracting from it - consider adding '' @
     ''subtle elements like natural light, soft shadows, or minimal office/desk props\<newline>'' @
     ''- The image should have a shallow depth of field, keeping the sticker pad in sharp '' @
     ''focus while the background is slightly blurred\<newline>'' @
     ''- Show the paper quality - it should look premium and well-made\<newline>'' @
     ''- Color accuracy is important - maintain the exact colors of the sticker pad'' @
     (if colorDescription \<noteq> [] then '', especially the specified color'' else []) @
     ''\<newline>'' @
     ''\<newline>'' @
     ''Style: Professional product photography, boutique aesthetic, luxury stationery catalog, '' @
     ''high-end e-commerce, clean and minimal, sophisticated lighting, realistic paper '' @
     ''texture, premium quality, workspace lifestyle photography.''"

definition buildToteBagPrompt :: "string \<Rightarrow> string \<Rightarrow> string" where
  "buildToteBagPrompt colorDescription designPreservation =
     ''Create a high-quality, professional product photography image of a tote bag'' @
     colorDescription @
     '' displayed hanging from an elegant hook or displayed on a surface in a luxury boutique '' @
     ''setting.\<newline>'' @
     ''\<newline>'' @
     ''Requirements:\<newline>'' @
     ''- The tote bag should be displayed hanging from a premium golden or wooden hook, or '' @
     ''elegantly arranged on a beautiful surface to showcase its shape and design\<newline>'' @
     ''- Position the bag with a slight natural drape or fold to show both the front design '' @
     ''and the overall structure\<newline>'' @
     ''- The focus should be entirely on the tote bag, which should appear as if it's made '' @
     ''from high-quality fabric or material\<newline>'' @
     ''- The background should suggest an upscale boutique, modern retail, or lifestyle store '' @
     ''environment - think soft, professional lighting, elegant textures, and a sophisticated '' @
     ''atmosphere\<newline>'' @
     ''- The image should look like professional product photography that you would see in a '' @
     ''high-end fashion or lifestyle brand catalog\<newline>'' @
     ''- The lighting should be soft and flattering, highlighting the bag's design, material '' @
     ''texture, and structure\<newline>'' @
     ''- The tote bag should appear three-dimensional and realistic, as if it's an actual '' @
     ''physical item\<newline>'' @
     ''- The overall aesthetic should be clean, minimal, and luxurious'' @
     designPreservation @
     ''\<newline>'' @
     ''- The hook or surface should be visible but not distract from the bag\<newline>'' @
     ''- The image should have a shallow depth of field, keeping the tote bag in sharp focus '' @
     ''while the background is slightly blurred\<newline>'' @
     ''- Show the material quality - it should look premium and well-constructed\<newline>'' @
     ''- Color accuracy is important - maintain the exact colors of the bag'' @
     (if colorDescription \<noteq> [] then '', especially the specified color'' else []) @
     ''\<newline>'' @
     ''\<newline>'' @
     ''Style: Professional product photography, boutique aesthetic, luxury fashion/lifestyle '' @
     ''catalog, high-end e-commerce, clean and minimal, sophisticated lighting, realistic '' @
     ''fabric/material texture, premium quality.''"

definition buildGenericPrompt :: "ProductType \<Rightarrow> string \<Rightarrow> string \<Rightarrow> string" where
  "buildGenericPrompt productType colorDescription designPreservation =
     (let productName = getProductName productType in
       ''Create a high-quality, professional product photography image of a '' @
       productName @
       colorDescription @
       '' displayed in a luxury boutique setting.\<newline>'' @
       ''\<newline>'' @
       ''Requirements:\<newline>'' @
       ''- The '' @
       productName @
       '' should be displayed in an elegant and natural way that showcases the product '' @
       ''beautifully\<newline>'' @
       ''- The focus should be entirely on the '' @
       productName @
       '', which should appear as if it's made from high-quality materials\<newline>'' @
       ''- The background should suggest an upscale boutique environment - think soft, '' @
       ''professional lighting, elegant textures, and a sophisticated atmosphere\<newline>'' @
       ''- The image should look like professional product photography that you would see in a '' @
       ''high-end catalog or boutique website\<newline>'' @
       ''- The lighting should be soft and flattering, highlighting the product's details and '' @
       ''texture\<newline>'' @
       ''- The '' @
       productName @
       '' should appear three-dimensional and realistic, as if it's an actual physical item\<newline>'' @
       ''- The overall aesthetic should be clean, minimal, and luxurious'' @
       designPreservation @
       ''\<newline>'' @
       ''- The image should have a shallow depth of field, keeping the product in sharp focus '' @
       ''while the background is slightly blurred\<newline>'' @
       ''- Color accuracy is important - maintain the exact colors of the product'' @
       (if colorDescription \<noteq> [] then '', especially the specified color'' else []) @
       ''\<newline>'' @
       ''\<newline>'' @
       ''Style: Professional product photography, boutique aesthetic, luxury catalog, high-end '' @
       ''e-commerce, clean and minimal, sophisticated lighting, premium quality.'')"

text \<open>
  \<^verbatim>\<open>buildPrompt(productType, color?, hasDesign = true)\<close>. An absent \<^verbatim>\<open>color\<close> is
  \<open>None\<close>; \<^verbatim>\<open>color ? a : b\<close> is false for \<^verbatim>\<open>undefined\<close> and for the empty string.
\<close>

definition colorDescription_of :: "string option \<Rightarrow> string" where
  "colorDescription_of color =
     (case color of None \<Rightarrow> [] | Some c \<Rightarrow> if c = [] then [] else '' in '' @ c @ '' color'')"

definition designPreservation_of :: "bool \<Rightarrow> string" where
  "designPreservation_of hasDesign =
     (if hasDesign then
        '' The design on the product must remain exactly as shown in the reference image - do not '' @
        ''alter, modify, or change the design in any way. The design should be clearly visible '' @
        ''and prominent. Remember it will be used as the sales image for the product.''
      else [])"

definition buildPrompt :: "ProductType \<Rightarrow> string option \<Rightarrow> bool \<Rightarrow> string" where
  "buildPrompt productType color hasDesign =
     (let colorDescription = colorDescription_of color;
          designPreservation = designPreservation_of hasDesign
      in if productType = HOODIE \<or> productType = SHIRT \<or> productType = TANK_TOP
            \<or> productType = LONG_SLEEVE \<or> productType = SWEATSHIRT \<or> productType = JACKET
         then buildClothingPrompt productType colorDescription designPreservation
         else if productType = FACECAP then buildCapPrompt colorDescription designPreservation
         else if productType = MUG then buildMugPrompt colorDescription designPreservation
         else if productType = STICKER_PAD
           then buildStickerPadPrompt colorDescription designPreservation
         else if productType = TOTE_BAG then buildToteBagPrompt colorDescription designPreservation
         else buildGenericPrompt productType colorDescription designPreservation)"

text \<open>
  The repository holds a second \<^verbatim>\<open>PromptBuilder\<close> (file \<^verbatim>\<open>src/unnamed/part_000\<close>): one
  hanger template for every product type, whose closing colour clause repeats the colour
  itself. The facade imports \<^verbatim>\<open>./prompts/prompt-builder\<close>, the six-template class above.
\<close>

definition buildPrompt_single :: "ProductType \<Rightarrow> string option \<Rightarrow> bool \<Rightarrow> string" where
  "buildPrompt_single productType color hasDesign =
     (let productName = getProductName productType;
          colorDescription = colorDescription_of color;
          designPreservation = designPreservation_of hasDesign
      in
       ''Create a high-quality, professional product photography image of a '' @
       productName @
       colorDescription @
       '' hanging from an elegant golden or wooden hanger in a luxury boutique setting. \<newline>'' @
       ''\<newline>'' @
       ''Requirements:\<newline>'' @
       ''- The '' @
       productName @
       '' should be displayed hanging from a premium golden or wooden hanger with a slight, '' @
       ''natural tilt (approximately 15-20 degrees) that showcases the product beautifully\<newline>'' @
       ''- The focus should be entirely on the '' @
       productName @
       '', which should appear as if it's made from high-quality fabric/material\<newline>'' @
       ''- The background should suggest an upscale boutique environment - think soft, '' @
       ''professional lighting, elegant textures, and a sophisticated atmosphere\<newline>'' @
       ''- The image should look like professional product photography that you would see in a '' @
       ''high-end fashion catalog or boutique website\<newline>'' @
       ''- The lighting should be soft and flattering, highlighting the product's details and '' @
       ''texture\<newline>'' @
       ''- The '' @
       productName @
       '' should appear three-dimensional and realistic, as if it's an actual physical item\<newline>'' @
       ''- The overall aesthetic should be clean, minimal, and luxurious'' @
       designPreservation @
       ''\<newline>'' @
       ''- The hanger should be visible but not distract from the product\<newline>'' @
       ''- The image should have a shallow depth of field, keeping the product in sharp focus '' @
       ''while the background is slightly blurred\<newline>'' @
       ''- Color accuracy is important - maintain the exact colors of the product'' @
       (case color of None \<Rightarrow> [] | Some c \<Rightarrow> if c = [] then [] else '', especially the '' @ c @ '' color specified'') @
       ''\<newline>'' @
       ''\<newline>'' @
       ''Style: Professional product photography, boutique aesthetic, luxury fashion catalog, '' @
       ''high-end e-commerce, clean and minimal, sophisticated lighting, realistic fabric '' @
       ''texture, premium quality.'')"

text \<open>
  \<^verbatim>\<open>String.prototype.includes\<close>, and the number of positions at which a substring
  occurs.
\<close>

fun str_includes :: "string \<Rightarrow> string \<Rightarrow> bool" where
  "str_includes [] n = (n = [])"
| "str_includes (x # xs) n = (starts_with (x # xs) n \<or> str_includes xs n)"

fun occurrences :: "string \<Rightarrow> string \<Rightarrow> nat" where
  "occurrences n [] = (if n = [] then 1 else 0)"
| "occurrences n (x # xs) = (if starts_with (x # xs) n then 1 else 0) + occurrences n xs"

text \<open>
  Counting with an accumulator, and the characters of the text that follows a chunk which
  a match starting inside the chunk can still reach (one fewer than the needle has).
\<close>

fun bump :: "bool \<Rightarrow> nat \<Rightarrow> nat" where
  "bump True k = Suc k"
| "bump False k = k"

fun count_from :: "string \<Rightarrow> string \<Rightarrow> nat \<Rightarrow> nat" where
  "count_from n [] k = bump (n = []) k"
| "count_from n (x # xs) k = count_from n xs (bump (starts_with (x # xs) n) k)"

fun peek :: "'b list \<Rightarrow> 'a list \<Rightarrow> 'a list" where
  "peek [] ys = []"
| "peek (p # ps) [] = []"
| "peek (p # ps) (y # ys) = y # peek ps ys"

definition occ_la :: "string \<Rightarrow> string \<Rightarrow> string \<Rightarrow> nat" where
  "occ_la n xs la = count_from n (xs @ la) 0"

section \<open>Errors\<close>

text \<open>
  Every \<^verbatim>\<open>throw\<close> and every rejected promise is a value. \<open>Error m\<close> is
  \<^verbatim>\<open>new Error(m)\<close>; \<open>ApiError p j\<close> is \<^verbatim>\<open>new Error(p + JSON.stringify(j))\<close>; the others
  are raised by the platform: a \<^verbatim>\<open>TypeError\<close> (reading a property of \<^verbatim>\<open>undefined\<close>,
  \<^verbatim>\<open>Buffer.from(undefined, ...)\<close>), a rejected \<^verbatim>\<open>fs.readFile\<close>, a rejected \<^verbatim>\<open>fetch\<close>,
  a rejected \<^verbatim>\<open>response.json()\<close>, and whatever the base64 decoder throws.
\<close>

record json_body =
  choices :: "string list option"
  data_items :: "string list option"
  candidates :: "string option option list option list option"
  prediction_id :: "string option"
  status :: "string option"
  output_urls :: "string list option"
  error_field :: "string option"

datatype error =
    Error string
  | ApiError string json_body
  | TypeError
  | ReadFileError string
  | FetchError string
  | JsonSyntaxError
  | DecodeError

section \<open>Base64\<close>

text \<open>
  \<^verbatim>\<open>buffer.toString('base64')\<close>: the standard alphabet with \<^verbatim>\<open>=\<close> padding. The decoder
  \<^verbatim>\<open>Buffer.from(s, 'base64')\<close> belongs to the platform and is a parameter of the model,
  of type \<open>string \<Rightarrow> buffer option\<close>, where \<open>None\<close> is a throw. \<open>base64_decode\<close> is
  Node's decoder: it never throws on a string. It stops at the first \<^verbatim>\<open>=\<close>, skips every
  other character that is not in the alphabet (\<^verbatim>\<open>-\<close> and \<^verbatim>\<open>_\<close> count as \<^verbatim>\<open>+\<close> and \<^verbatim>\<open>/\<close>),
  and turns the six-bit values four at a time into three bytes, a rest of three into two
  bytes and a rest of two into one.
\<close>

definition base64_alphabet :: string where
  "base64_alphabet = ''ABCDEFGHIJKLMNOPQRSTUVWXYZabcdefghijklmnopqrstuvwxyz0123456789+/''"

definition base64_char :: "nat \<Rightarrow> char" where
  "base64_char i = base64_alphabet ! (i mod 64)"

fun base64_encode :: "buffer \<Rightarrow> string" where
  "base64_encode [] = []"
| "base64_encode [a] =
     [base64_char (unat a div 4), base64_char (unat a mod 4 * 16), CHR ''='', CHR ''='']"
| "base64_encode [a, b] =
     [base64_char (unat a div 4), base64_char (unat a mod 4 * 16 + unat b div 16),
      base64_char (unat b mod 16 * 4), CHR ''='']"
| "base64_encode (a # b # c # rest) =
     [base64_char (unat a div 4), base64_char (unat a mod 4 * 16 + unat b div 16),
      base64_char (unat b mod 16 * 4 + unat c div 64), base64_char (unat c mod 64)]
     @ base64_encode rest"

fun index_of :: "'a \<Rightarrow> 'a list \<Rightarrow> nat option" where
  "index_of c [] = None"
| "index_of c (x # xs) = (if c = x then Some 0 else map_option Suc (index_of c xs))"

definition base64_value :: "char \<Rightarrow> nat option" where
  "base64_value c =
     (if c = CHR ''-'' then Some 62 else if c = CHR ''_'' then Some 63
      else index_of c base64_alphabet)"

fun sextets :: "string \<Rightarrow> nat list" where
  "sextets [] = []"
| "sextets (c # cs) =
     (if c = CHR ''='' then []
      else (case base64_value c of None \<Rightarrow> sextets cs | Some v \<Rightarrow> v # sextets cs))"

fun bytes_of_sextets :: "nat list \<Rightarrow> buffer" where
  "bytes_of_sextets (v1 # v2 # v3 # v4 # rest) =
     of_nat (v1 * 4 + v2 div 16) # of_nat (v2 mod 16 * 16 + v3 div 4) # of_nat (v3 mod 4 * 64 + v4)
     # bytes_of_sextets rest"
| "bytes_of_sextets [v1, v2, v3] =
     [of_nat (v1 * 4 + v2 div 16), of_nat (v2 mod 16 * 16 + v3 div 4)]"
| "bytes_of_sextets [v1, v2] = [of_nat (v1 * 4 + v2 div 16)]"
| "bytes_of_sextets [v1] = []"
| "bytes_of_sextets [] = []"

definition base64_decode :: "string \<Rightarrow> buffer option" where
  "base64_decode s = Some (bytes_of_sextets (sextets s))"

section \<open>Input normalisation (\<^verbatim>\<open>normalizeImageInput\<close>)\<close>

text \<open>
  The parameter \<^verbatim>\<open>image: Buffer | string\<close>. \<open>Neither\<close> is a run-time value that is
  neither, which the type checker excludes and the final \<^verbatim>\<open>throw\<close> handles.
\<close>

datatype image_input = Binary buffer | Text string | Neither

text \<open>\<^verbatim>\<open>s.split(c)\<close> for a one-character separator, and \<^verbatim>\<open>xs[i]\<close> on an array.\<close>

fun split_on :: "char \<Rightarrow> string \<Rightarrow> string list" where
  "split_on c [] = [[]]"
| "split_on c (x # xs) =
     (if x = c then [] # split_on c xs
      else (case split_on c xs of [] \<Rightarrow> [[x]] | y # ys \<Rightarrow> (x # y) # ys))"

fun nth_opt :: "'a list \<Rightarrow> nat \<Rightarrow> 'a option" where
  "nth_opt [] i = None"
| "nth_opt (x # xs) 0 = Some x"
| "nth_opt (x # xs) (Suc i) = nth_opt xs i"

text \<open>\<^verbatim>\<open>Buffer.from(x, 'base64')\<close>, where \<^verbatim>\<open>x\<close> may be \<^verbatim>\<open>undefined\<close>.\<close>

definition buffer_from_base64 :: "(string \<Rightarrow> buffer option) \<Rightarrow> string option \<Rightarrow> error + buffer" where
  "buffer_from_base64 decode x =
     (case x of
        None \<Rightarrow> Inl TypeError
      | Some s \<Rightarrow> (case decode s of None \<Rightarrow> Inl DecodeError | Some b \<Rightarrow> Inr b))"

text \<open>\<^verbatim>\<open>fs.readFile(path)\<close> on a file system that maps the readable paths to their contents.\<close>

definition readFile :: "(string \<rightharpoonup> buffer) \<Rightarrow> string \<Rightarrow> error + buffer" where
  "readFile fs path = (case fs path of None \<Rightarrow> Inl (ReadFileError path) | Some b \<Rightarrow> Inr b)"

definition backslash :: string where
  "backslash = [CHR 0x5C]"

definition invalid_image_input :: string where
  "invalid_image_input = ''Invalid image input format. Expected Buffer, base64 string, or file path.''"

text \<open>
  The \<^verbatim>\<open>try\<close> block returns the decoded buffer; when the decoder throws, the empty
  \<^verbatim>\<open>catch\<close> lets control reach the file-path branch.
\<close>

definition normalizeImageInput ::
  "(string \<Rightarrow> buffer option) \<Rightarrow> (string \<rightharpoonup> buffer) \<Rightarrow> image_input \<Rightarrow> error + buffer" where
  "normalizeImageInput decode fs img =
     (case img of
        Binary b \<Rightarrow> Inr b
      | Text s \<Rightarrow>
          if starts_with s ''data:'' then
            buffer_from_base64 decode (nth_opt (split_on CHR '','' s) 1)
          else
            (case (if \<not> str_includes s ''/'' \<and> \<not> str_includes s backslash then decode s
                   else None) of
               Some b \<Rightarrow> Inr b
             | None \<Rightarrow> readFile fs s)
      | Neither \<Rightarrow> Inl (Error invalid_image_input))"

section \<open>The network\<close>

text \<open>
  A request as \<^verbatim>\<open>fetch(url, init)\<close> receives it. A JSON request body is the value given to
  \<^verbatim>\<open>JSON.stringify\<close>, with each number as the source writes it; a multipart body is the
  list of the appended form fields.
\<close>

datatype json_value =
    JStr string
  | JNum string
  | JArr "json_value list"
  | JObj "(string \<times> json_value) list"

datatype form_value = FormText string | FormBlob buffer string string

datatype request_body = NoBody | JsonBody json_value | FormData "(string \<times> form_value) list"

record request =
  url :: string
  http_method :: string
  headers :: "(string \<times> string) list"
  body :: request_body

text \<open>
  A response as the adapters observe it: \<^verbatim>\<open>response.ok\<close>, the value of
  \<^verbatim>\<open>response.json()\<close> read at the type the adapter declares for it (\<open>None\<close> when the
  promise rejects), \<^verbatim>\<open>response.text()\<close>, and the bytes of \<^verbatim>\<open>response.arrayBuffer()\<close>
  or \<^verbatim>\<open>response.blob()\<close>. In a \<open>json_body\<close> a field is \<open>None\<close> when it is
  \<^verbatim>\<open>undefined\<close>: \<open>choices\<close> holds \<^verbatim>\<open>choices[i].message.content\<close>, \<open>data_items\<close> holds
  \<^verbatim>\<open>data[i].b64_json\<close>, \<open>candidates\<close> holds for each candidate its \<^verbatim>\<open>content.parts\<close>,
  for each part its \<^verbatim>\<open>inlineData\<close> and for that its \<^verbatim>\<open>data\<close>, and \<open>prediction_id\<close>, \<open>status\<close>,
  \<open>output_urls\<close>, \<open>error_field\<close> are \<^verbatim>\<open>id\<close>, \<^verbatim>\<open>status\<close>, \<^verbatim>\<open>output\<close>, \<^verbatim>\<open>error\<close>.
\<close>

record response =
  ok :: bool
  json :: "json_body option"
  text_body :: string
  array_buffer :: buffer

datatype fetch_result = Rejected string | Response response

text \<open>
  What a call does to the outside, in order: the requests it issues and the delays it
  waits (\<^verbatim>\<open>setTimeout\<close>, in milliseconds). The network answers a request knowing how
  many requests were issued before it.
\<close>

datatype event = Fetch request | Sleep nat

type_synonym network = "nat \<Rightarrow> request \<Rightarrow> fetch_result"

fun fetches :: "event list \<Rightarrow> request list" where
  "fetches [] = []"
| "fetches (Fetch r # es) = r # fetches es"
| "fetches (Sleep d # es) = fetches es"

definition fetch :: "network \<Rightarrow> request \<Rightarrow> event list \<Rightarrow> fetch_result \<times> event list" where
  "fetch net req tr = (net (length (fetches tr)) req, tr @ [Fetch req])"

definition get_request :: "string \<Rightarrow> request" where
  "get_request u = \<lparr>url = u, http_method = ''GET'', headers = [], body = NoBody\<rparr>"

text \<open>\<^verbatim>\<open>await response.json().catch(() => ({ error: 'Unknown error' }))\<close>.\<close>

definition unknown_error :: json_body where
  "unknown_error =
     \<lparr>choices = None, data_items = None, candidates = None, prediction_id = None,
      status = None, output_urls = None, error_field = Some ''Unknown error''\<rparr>"

definition error_json :: "response \<Rightarrow> json_body" where
  "error_json r = (case json r of None \<Rightarrow> unknown_error | Some j \<Rightarrow> j)"

text \<open>
  \<^verbatim>\<open>xs[0].field\<close> on an array that may be \<^verbatim>\<open>undefined\<close>: indexing \<^verbatim>\<open>undefined\<close> throws,
  and so does reading a property of the \<^verbatim>\<open>undefined\<close> that an empty array yields.
\<close>

definition first_item :: "'a list option \<Rightarrow> error + 'a" where
  "first_item xs = (case xs of None \<Rightarrow> Inl TypeError | Some [] \<Rightarrow> Inl TypeError | Some (x # _) \<Rightarrow> Inr x)"

section \<open>Provider adapters\<close>

type_synonym decoder = "string \<Rightarrow> buffer option"
type_synonym outcome = "(error + buffer) \<times> event list"

subsection \<open>\<^verbatim>\<open>OpenAIProvider\<close>\<close>

definition openai_missing_key :: string where
  "openai_missing_key =
     ''OpenAI API key is required. Set OPENAI_API_KEY environment variable or pass apiKey in options.''"

definition vision_request :: "string \<Rightarrow> string \<Rightarrow> request" where
  "vision_request apiKey base64Image =
     (let mimeType = ''image/png'' in
      \<lparr>url = ''https://api.openai.com/v1/chat/completions'',
       http_method = ''POST'',
       headers = [(''Authorization'', ''Bearer '' @ apiKey), (''Content-Type'', ''application/json'')],
       body = JsonBody (JObj
         [(''model'', JStr ''gpt-4-vision-preview''),
          (''messages'', JArr [JObj
             [(''role'', JStr ''user''),
              (''content'', JArr
                 [JObj [(''type'', JStr ''text''),
                        (''text'', JStr
                           (''Describe in detail the design, graphics, text, colors, and any visual '' @
                            ''elements visible on this product. Be very specific about what is printed '' @
                            ''or displayed on the product itself. Focus only on the design elements, '' @
                            ''not the product type or background.''))],
                  JObj [(''type'', JStr ''image_url''),
                        (''image_url'', JObj
                           [(''url'', JStr (''data:'' @ mimeType @ '';base64,'' @ base64Image))])]])]]),
          (''max_tokens'', JNum ''300'')])\<rparr>)"

definition enhanced_prompt :: "string \<Rightarrow> string \<Rightarrow> string" where
  "enhanced_prompt prompt designDescription =
     prompt @ ''\<newline>\<newline>IMPORTANT: The product must have the following design elements exactly as described: '' @
     designDescription @
     ''. These design elements must be preserved exactly - do not alter, modify, or change them in any way.''"

definition dalle_request :: "string \<Rightarrow> string \<Rightarrow> request" where
  "dalle_request apiKey enhancedPrompt =
     \<lparr>url = ''https://api.openai.com/v1/images/generations'',
      http_method = ''POST'',
      headers = [(''Authorization'', ''Bearer '' @ apiKey), (''Content-Type'', ''application/json'')],
      body = JsonBody (JObj
        [(''model'', JStr ''dall-e-3''),
         (''prompt'', JStr enhancedPrompt),
         (''n'', JNum ''1''),
         (''size'', JStr ''1024x1024''),
         (''response_format'', JStr ''b64_json''),
         (''quality'', JStr ''hd'')])\<rparr>"

definition OpenAIProvider_generateImage ::
  "decoder \<Rightarrow> network \<Rightarrow> string \<Rightarrow> buffer \<Rightarrow> string \<Rightarrow> event list \<Rightarrow> outcome" where
  "OpenAIProvider_generateImage decode net prompt referenceImage apiKey tr =
     (if apiKey = [] then (Inl (Error openai_missing_key), tr)
      else
        let base64Image = base64_encode referenceImage in
        case fetch net (vision_request apiKey base64Image) tr of
          (Rejected m, tr1) \<Rightarrow> (Inl (FetchError m), tr1)
        | (Response visionResponse, tr1) \<Rightarrow>
            if \<not> ok visionResponse then
              (Inl (ApiError ''OpenAI Vision API error: '' (error_json visionResponse)), tr1)
            else
              (case json visionResponse of
                 None \<Rightarrow> (Inl JsonSyntaxError, tr1)
               | Some visionData \<Rightarrow>
                   (case first_item (choices visionData) of
                      Inl e \<Rightarrow> (Inl e, tr1)
                    | Inr designDescription \<Rightarrow>
                        (case fetch net (dalle_request apiKey (enhanced_prompt prompt designDescription)) tr1 of
                           (Rejected m, tr2) \<Rightarrow> (Inl (FetchError m), tr2)
                         | (Response imageResponse, tr2) \<Rightarrow>
                             if \<not> ok imageResponse then
                               (Inl (ApiError ''OpenAI DALL-E API error: '' (error_json imageResponse)), tr2)
                             else
                               (case json imageResponse of
                                  None \<Rightarrow> (Inl JsonSyntaxError, tr2)
                                | Some imageData \<Rightarrow>
                                    (case first_item (data_items imageData) of
                                       Inl e \<Rightarrow> (Inl e, tr2)
                                     | Inr imageBase64 \<Rightarrow>
                                         (buffer_from_base64 decode (Some imageBase64), tr2)))))))"

subsection \<open>\<^verbatim>\<open>StabilityAIProvider\<close>\<close>

definition stability_missing_key :: string where
  "stability_missing_key =
     ''Stability AI API key is required. Set STABILITY_API_KEY environment variable or pass apiKey in options.''"

definition stability_request :: "string \<Rightarrow> string \<Rightarrow> buffer \<Rightarrow> request" where
  "stability_request apiKey prompt referenceImage =
     \<lparr>url = ''https://api.stability.ai/v2beta/stable-image/edit/creative'',
      http_method = ''POST'',
      headers = [(''Authorization'', ''Bearer '' @ apiKey)],
      body = FormData
        [(''image'', FormBlob referenceImage ''image/png'' ''product.png''),
         (''prompt'', FormText prompt),
         (''mode'', FormText ''image-to-image''),
         (''strength'', FormText ''0.7'')]\<rparr>"

definition StabilityAIProvider_generateImage ::
  "decoder \<Rightarrow> network \<Rightarrow> string \<Rightarrow> buffer \<Rightarrow> string \<Rightarrow> event list \<Rightarrow> outcome" where
  "StabilityAIProvider_generateImage decode net prompt referenceImage apiKey tr =
     (if apiKey = [] then (Inl (Error stability_missing_key), tr)
      else
        case fetch net (stability_request apiKey prompt referenceImage) tr of
          (Rejected m, tr1) \<Rightarrow> (Inl (FetchError m), tr1)
        | (Response r, tr1) \<Rightarrow>
            if \<not> ok r then (Inl (Error (''Stability AI API error: '' @ text_body r)), tr1)
            else (Inr (array_buffer r), tr1))"

subsection \<open>\<^verbatim>\<open>NanoBananaProvider\<close>\<close>

definition nanobanana_missing_key :: string where
  "nanobanana_missing_key =
     ''Google AI API key is required. Set GOOGLE_AI_API_KEY or GEMINI_API_KEY environment variable or pass apiKey in options.''"

definition gemini_request :: "string \<Rightarrow> string \<Rightarrow> string \<Rightarrow> request" where
  "gemini_request apiKey prompt base64Image =
     (let mimeType = ''image/png'' in
      \<lparr>url = ''https://generativelanguage.googleapis.com/v1beta/models/gemini-2.5-flash-image:generateContent?key=''
               @ apiKey,
       http_method = ''POST'',
       headers = [(''Content-Type'', ''application/json'')],
       body = JsonBody (JObj
         [(''contents'', JArr [JObj
             [(''parts'', JArr
                 [JObj [(''text'', JStr prompt)],
                  JObj [(''inlineData'', JObj
                     [(''mimeType'', JStr mimeType), (''data'', JStr base64Image)])]])]]),
          (''generationConfig'', JObj
             [(''temperature'', JNum ''0.7''), (''topK'', JNum ''40''), (''topP'', JNum ''0.95''),
              (''maxOutputTokens'', JNum ''1024'')])])\<rparr>)"

text \<open>
  \<^verbatim>\<open>data.candidates[0]?.content?.parts?.find((part) => part.inlineData)\<close>: the first part
  of the first candidate that has an \<^verbatim>\<open>inlineData\<close>, whatever is in it; \<open>Inr None\<close> is
  \<^verbatim>\<open>undefined\<close>. Then \<^verbatim>\<open>imagePart?.inlineData?.data\<close>, which is \<^verbatim>\<open>undefined\<close> when
  there is no such part or when its \<^verbatim>\<open>inlineData\<close> has no \<^verbatim>\<open>data\<close>.
\<close>

definition find_image_part :: "json_body \<Rightarrow> error + string option option" where
  "find_image_part d =
     (case candidates d of
        None \<Rightarrow> Inl TypeError
      | Some [] \<Rightarrow> Inr None
      | Some (None # _) \<Rightarrow> Inr None
      | Some (Some parts # _) \<Rightarrow>
          (case List.find (\<lambda>part. part \<noteq> None) parts of
             None \<Rightarrow> Inr None
           | Some part \<Rightarrow> Inr part))"

definition image_part_data :: "json_body \<Rightarrow> error + string option" where
  "image_part_data d =
     (case find_image_part d of
        Inl e \<Rightarrow> Inl e
      | Inr None \<Rightarrow> Inr None
      | Inr (Some inlineData) \<Rightarrow> Inr inlineData)"

definition NanoBananaProvider_generateImage ::
  "decoder \<Rightarrow> network \<Rightarrow> string \<Rightarrow> buffer \<Rightarrow> string \<Rightarrow> event list \<Rightarrow> outcome" where
  "NanoBananaProvider_generateImage decode net prompt referenceImage apiKey tr =
     (if apiKey = [] then (Inl (Error nanobanana_missing_key), tr)
      else
        let base64Image = base64_encode referenceImage in
        case fetch net (gemini_request apiKey prompt base64Image) tr of
          (Rejected m, tr1) \<Rightarrow> (Inl (FetchError m), tr1)
        | (Response r, tr1) \<Rightarrow>
            if \<not> ok r then (Inl (ApiError ''Google Gemini API error: '' (error_json r)), tr1)
            else
              (case json r of
                 None \<Rightarrow> (Inl JsonSyntaxError, tr1)
               | Some d \<Rightarrow>
                   (case image_part_data d of
                      Inl e \<Rightarrow> (Inl e, tr1)
                    | Inr None \<Rightarrow> (Inl (Error ''Nano Banana API did not return an image''), tr1)
                    | Inr (Some imageData) \<Rightarrow>
                        if imageData = [] then
                          (Inl (Error ''Nano Banana API did not return an image''), tr1)
                        else (buffer_from_base64 decode (Some imageData), tr1))))"

subsection \<open>\<^verbatim>\<open>ReplicateProvider\<close>\<close>

definition replicate_missing_key :: string where
  "replicate_missing_key =
     ''Replicate API token is required. Set REPLICATE_API_TOKEN environment variable or pass apiKey in options.''"

definition prediction_request :: "string \<Rightarrow> string \<Rightarrow> string \<Rightarrow> request" where
  "prediction_request apiKey prompt dataUri =
     \<lparr>url = ''https://api.replicate.com/v1/predictions'',
      http_method = ''POST'',
      headers = [(''Authorization'', ''Token '' @ apiKey), (''Content-Type'', ''application/json'')],
      body = JsonBody (JObj
        [(''version'', JStr ''stability-ai/stable-diffusion:db21e45d3f7023abc2e46d38e3e839806992f2a2''),
         (''input'', JObj
            [(''image'', JStr dataUri), (''prompt'', JStr prompt), (''strength'', JNum ''0.7'')])])\<rparr>"

text \<open>A template literal prints \<^verbatim>\<open>undefined\<close> as the text \<^verbatim>\<open>undefined\<close>.\<close>

definition id_text :: "json_body \<Rightarrow> string" where
  "id_text prediction = (case prediction_id prediction of None \<Rightarrow> ''undefined'' | Some i \<Rightarrow> i)"

definition status_request :: "string \<Rightarrow> string \<Rightarrow> request" where
  "status_request apiKey predictionId =
     \<lparr>url = ''https://api.replicate.com/v1/predictions/'' @ predictionId,
      http_method = ''GET'',
      headers = [(''Authorization'', ''Token '' @ apiKey)],
      body = NoBody\<rparr>"

definition in_progress :: "json_body \<Rightarrow> bool" where
  "in_progress result = (status result = Some ''starting'' \<or> status result = Some ''processing'')"

text \<open>
  The \<^verbatim>\<open>while\<close> loop: wait one second, fetch the status, read it as JSON. The loop has
  no bound, so it is a partial function: \<open>None\<close> is a loop that never ends.
\<close>

partial_function (option) poll ::
  "network \<Rightarrow> string \<Rightarrow> string \<Rightarrow> json_body \<Rightarrow> event list
   \<Rightarrow> ((error + json_body) \<times> event list) option" where
  "poll net apiKey predictionId result tr =
     (if in_progress result then
        (case fetch net (status_request apiKey predictionId) (tr @ [Sleep 1000]) of
           (Rejected m, tr1) \<Rightarrow> Some (Inl (FetchError m), tr1)
         | (Response statusResponse, tr1) \<Rightarrow>
             (case json statusResponse of
                None \<Rightarrow> Some (Inl JsonSyntaxError, tr1)
              | Some result1 \<Rightarrow> poll net apiKey predictionId result1 tr1))
      else Some (Inr result, tr))"

text \<open>\<^verbatim>\<open>result.error || 'Unknown error'\<close>: an absent or empty error is replaced.\<close>

definition remote_error :: "json_body \<Rightarrow> string" where
  "remote_error result =
     (case error_field result of
        None \<Rightarrow> ''Unknown error''
      | Some e \<Rightarrow> if e = [] then ''Unknown error'' else e)"

definition finish_prediction :: "network \<Rightarrow> json_body \<Rightarrow> event list \<Rightarrow> outcome" where
  "finish_prediction net result tr =
     (if status result = Some ''failed'' then
        (Inl (Error (''Replicate prediction failed: '' @ remote_error result)), tr)
      else
        (case output_urls result of
           None \<Rightarrow> (Inl (Error ''Replicate prediction did not return an image''), tr)
         | Some [] \<Rightarrow> (Inl (Error ''Replicate prediction did not return an image''), tr)
         | Some (imageUrl # _) \<Rightarrow>
             (case fetch net (get_request imageUrl) tr of
                (Rejected m, tr1) \<Rightarrow> (Inl (FetchError m), tr1)
              | (Response imageResponse, tr1) \<Rightarrow> (Inr (array_buffer imageResponse), tr1))))"

definition ReplicateProvider_generateImage ::
  "decoder \<Rightarrow> network \<Rightarrow> string \<Rightarrow> buffer \<Rightarrow> string \<Rightarrow> event list \<Rightarrow> outcome option" where
  "ReplicateProvider_generateImage decode net prompt referenceImage apiKey tr =
     (if apiKey = [] then Some (Inl (Error replicate_missing_key), tr)
      else
        let base64Image = base64_encode referenceImage;
            dataUri = ''data:image/png;base64,'' @ base64Image in
        case fetch net (prediction_request apiKey prompt dataUri) tr of
          (Rejected m, tr1) \<Rightarrow> Some (Inl (FetchError m), tr1)
        | (Response r, tr1) \<Rightarrow>
            if \<not> ok r then Some (Inl (ApiError ''Replicate API error: '' (error_json r)), tr1)
            else
              (case json r of
                 None \<Rightarrow> Some (Inl JsonSyntaxError, tr1)
               | Some prediction \<Rightarrow>
                   (case poll net apiKey (id_text prediction) prediction tr1 of
                      None \<Rightarrow> None
                    | Some (Inl e, tr2) \<Rightarrow> Some (Inl e, tr2)
                    | Some (Inr result, tr2) \<Rightarrow> Some (finish_prediction net result tr2))))"

section \<open>Provider factory (\<^verbatim>\<open>createAIProvider\<close>)\<close>

datatype provider = NanoBananaProvider | OpenAIProvider | StabilityAIProvider | ReplicateProvider

definition createAIProvider :: "string \<Rightarrow> error + provider" where
  "createAIProvider provider =
     (if provider = ''nanobanana'' then Inr NanoBananaProvider
      else if provider = ''openai'' then Inr OpenAIProvider
      else if provider = ''stability'' then Inr StabilityAIProvider
      else if provider = ''replicate'' then Inr ReplicateProvider
      else Inl (Error (''Unsupported provider: '' @ provider)))"

text \<open>The method \<^verbatim>\<open>generateImage\<close> of the interface \<^verbatim>\<open>AIProvider\<close>, by the object's class.\<close>

definition generateImage ::
  "provider \<Rightarrow> decoder \<Rightarrow> network \<Rightarrow> string \<Rightarrow> buffer \<Rightarrow> string \<Rightarrow> event list \<Rightarrow> outcome option" where
  "generateImage p decode net prompt referenceImage apiKey tr =
     (case p of
        NanoBananaProvider \<Rightarrow> Some (NanoBananaProvider_generateImage decode net prompt referenceImage apiKey tr)
      | OpenAIProvider \<Rightarrow> Some (OpenAIProvider_generateImage decode net prompt referenceImage apiKey tr)
      | StabilityAIProvider \<Rightarrow> Some (StabilityAIProvider_generateImage decode net prompt referenceImage apiKey tr)
      | ReplicateProvider \<Rightarrow> ReplicateProvider_generateImage decode net prompt referenceImage apiKey tr)"

section \<open>Facade (\<^verbatim>\<open>MerchDesignEnhancer\<close>)\<close>

record MerchDesignEnhancerOptions =
  options_apiKey :: string
  options_provider :: "string option"

record MerchDesignEnhancer =
  apiKey :: string
  provider_name :: string
  aiProvider :: provider

record EnhanceImageOptions =
  input_image :: image_input
  productType :: ProductType
  color :: "string option"

record EnhanceImageResult =
  result_image :: buffer
  mimeType :: string

text \<open>The constructor; \<^verbatim>\<open>options.provider || 'nanobanana'\<close> replaces an absent or empty name.\<close>

definition new_MerchDesignEnhancer :: "MerchDesignEnhancerOptions \<Rightarrow> error + MerchDesignEnhancer" where
  "new_MerchDesignEnhancer options =
     (let name = (case options_provider options of
                    None \<Rightarrow> ''nanobanana''
                  | Some p \<Rightarrow> if p = [] then ''nanobanana'' else p)
      in case createAIProvider name of
           Inl e \<Rightarrow> Inl e
         | Inr a \<Rightarrow> Inr \<lparr>apiKey = options_apiKey options, provider_name = name, aiProvider = a\<rparr>)"

text \<open>
  \<^verbatim>\<open>enhanceImage\<close>: four statements in sequence, none inside a \<^verbatim>\<open>try\<close>. \<open>and_then\<close>
  is that sequencing: the first thrown error ends the call, and a step that never
  returns ends it without a result.
\<close>

definition and_then ::
  "((error + 'a) \<times> event list) option \<Rightarrow> ('a \<Rightarrow> event list \<Rightarrow> ((error + 'b) \<times> event list) option)
   \<Rightarrow> ((error + 'b) \<times> event list) option" where
  "and_then m f =
     (case m of
        None \<Rightarrow> None
      | Some (Inl e, tr) \<Rightarrow> Some (Inl e, tr)
      | Some (Inr x, tr) \<Rightarrow> f x tr)"

definition enhanceImage ::
  "decoder \<Rightarrow> (string \<rightharpoonup> buffer) \<Rightarrow> network \<Rightarrow> MerchDesignEnhancer \<Rightarrow> EnhanceImageOptions
   \<Rightarrow> event list \<Rightarrow> ((error + EnhanceImageResult) \<times> event list) option" where
  "enhanceImage decode fs net self options tr =
     and_then (Some (normalizeImageInput decode fs (input_image options), tr)) (\<lambda>imageBuffer tr1.
       let prompt = buildPrompt (productType options) (color options) True in
       and_then (generateImage (aiProvider self) decode net prompt imageBuffer (apiKey self) tr1)
         (\<lambda>enhancedImage tr2.
            let mimeType = detectMimeType enhancedImage in
            Some (Inr \<lparr>result_image = enhancedImage, mimeType = mimeType\<rparr>, tr2)))"

text \<open>
  A stub transport for concrete scenarios: it answers the \<open>i\<close>-th request with the
  \<open>i\<close>-th response of a script, and rejects once the script is used up.
\<close>

definition scripted :: "fetch_result list \<Rightarrow> network" where
  "scripted script n req = (if n < length script then script ! n else Rejected ''no response'')"

definition json_response :: "json_body \<Rightarrow> fetch_result" where
  "json_response j = Response \<lparr>ok = True, json = Some j, text_body = [], array_buffer = []\<rparr>"

definition bytes_response :: "buffer \<Rightarrow> fetch_result" where
  "bytes_response b = Response \<lparr>ok = True, json = None, text_body = [], array_buffer = b\<rparr>"

definition prediction ::
  "string \<Rightarrow> string list option \<Rightarrow> string option \<Rightarrow> json_body" where
  "prediction st out err =
     \<lparr>choices = None, data_items = None, candidates = None, prediction_id = Some ''p1'',
      status = Some st, output_urls = out, error_field = err\<rparr>"

definition gemini_image :: "string \<Rightarrow> json_body" where
  "gemini_image d =
     \<lparr>choices = None, data_items = None, candidates = Some [Some [None, Some (Some d)]],
      prediction_id = None, status = None, output_urls = None, error_field = None\<rparr>"

definition png_bytes :: buffer where
  "png_bytes = [0x89, 0x50, 0x4e, 0x47, 0x0d, 0x0a]"

section \<open>Properties of MIME sniffing\<close>

lemma at_Nil: "at [] i = None"
  by (simp add: at_def)

lemma at_Cons_0: "at (x # xs) 0 = Some x"
  by (simp add: at_def)

lemma at_Cons_Suc: "at (x # xs) (Suc i) = at xs i"
  by (simp add: at_def)

lemma at_Cons_numeral: "at (x # xs) (numeral n) = at xs (pred_numeral n)"
  by (simp add: at_def numeral_eq_Suc)

lemma at_Cons_1: "at (x # xs) 1 = at xs 0"
  by (simp add: at_def)

lemmas at_simps = at_Nil at_Cons_0 at_Cons_Suc at_Cons_numeral at_Cons_1

lemma starts_with_2: "starts_with b [p, q] \<longleftrightarrow> at b 0 = Some p \<and> at b 1 = Some q"
  by (cases b; cases "tl b") (auto simp: at_simps)

lemma starts_with_3:
  "starts_with b [p, q, r] \<longleftrightarrow> at b 0 = Some p \<and> at b 1 = Some q \<and> at b 2 = Some r"
  by (cases b; cases "tl b"; cases "tl (tl b)") (auto simp: at_simps)

lemma starts_with_4:
  "starts_with b [p, q, r, s] \<longleftrightarrow>
     at b 0 = Some p \<and> at b 1 = Some q \<and> at b 2 = Some r \<and> at b 3 = Some s"
  by (cases b; cases "tl b"; cases "tl (tl b)"; cases "tl (tl (tl b))") (auto simp: at_simps)

text \<open>
  C8. \<^verbatim>\<open>detectMimeType\<close> is the first-match lookup in the table of the four signatures
  JPEG (FF D8), PNG (89 50 4E 47), GIF (47 49 46), WEBP (52 49 46 46), in that order, with
  \<^verbatim>\<open>image/png\<close> as the default; it is a total function, so it returns for every buffer.
\<close>

theorem detectMimeType_first_match:
  "detectMimeType b = detectMimeType_spec b \<and>
   map fst signatures = [[0xff, 0xd8], [0x89, 0x50, 0x4e, 0x47], [0x47, 0x49, 0x46], [0x52, 0x49, 0x46, 0x46]] \<and>
   map snd signatures = [''image/jpeg'', ''image/png'', ''image/gif'', ''image/webp'']"
  by (simp add: detectMimeType_def detectMimeType_spec_def signatures_def
      starts_with_2 starts_with_3 starts_with_4)

text \<open>
  C10. A buffer of fewer than two bytes (the empty buffer included) is reported as
  \<^verbatim>\<open>image/png\<close>: reads past the end compare unequal to every signature byte. For every
  buffer the result is one of the four MIME types.
\<close>

theorem detectMimeType_short_and_range:
  "(length b < 2 \<longrightarrow> detectMimeType b = ''image/png'') \<and>
   detectMimeType b \<in> {''image/jpeg'', ''image/png'', ''image/gif'', ''image/webp''}"
  by (auto simp: detectMimeType_def at_def)

theorem detectMimeType_short_and_range_witness:
  "length [0xff :: byte] < 2 \<and> detectMimeType [0xff] = ''image/png'' \<and>
   detectMimeType [] = ''image/png''"
  using detectMimeType_short_and_range [of "[0xff]"] detectMimeType_short_and_range [of "[]"]
  by simp

section \<open>Substrings of concatenations\<close>

lemma starts_with_take: "starts_with s n \<longleftrightarrow> take (length n) s = n"
  by (induction s n rule: starts_with.induct) auto

lemma count_from_occurrences: "count_from n s k = k + occurrences n s"
  by (induction s arbitrary: k) auto

lemma occurrences_count_from: "occurrences n s = count_from n s 0"
  by (simp add: count_from_occurrences)

lemma str_includes_occurrences: "str_includes s n \<longleftrightarrow> 0 < occurrences n s"
  by (induction s) auto

lemma str_includes_Nil: "str_includes s []"
  by (cases s) auto

lemma str_includes_here: "str_includes (n @ ys) n"
  by (cases n) (auto simp: starts_with_take str_includes_Nil)

lemma str_includes_later: "str_includes ys n \<Longrightarrow> str_includes (xs @ ys) n"
  by (induction xs) auto

lemma str_includes_end: "str_includes n n"
  using str_includes_here [of n "[]"] by simp

lemma peek_take: "peek ps ys = take (length ps) ys"
  by (induction ps ys rule: peek.induct) auto

lemma occurrences_short: "length s < length n \<Longrightarrow> occurrences n s = 0"
  by (induction s arbitrary: n) (auto simp: starts_with_take)

text \<open>
  The matches in \<open>xs @ ys\<close> are those that start in \<open>xs\<close>, which see at most
  \<open>length n - 1\<close> characters of \<open>ys\<close>, and those in \<open>ys\<close>.
\<close>

lemma occurrences_append:
  "occurrences (p # ps) (xs @ ys) = occ_la (p # ps) xs (peek ps ys) + occurrences (p # ps) ys"
proof (induction xs)
  case Nil
  have "length (take (length ps) ys) < length (p # ps)"
    by simp
  then have "occurrences (p # ps) (take (length ps) ys) = 0"
    by (rule occurrences_short)
  then show ?case
    by (simp add: occ_la_def count_from_occurrences peek_take)
next
  case (Cons x xs)
  have "take (length (p # ps)) ((x # xs) @ ys) =
        take (length (p # ps)) ((x # xs) @ take (length ps) ys)"
    by (simp add: min_def)
  then have "starts_with (x # xs @ ys) (p # ps) =
             starts_with (x # xs @ take (length ps) ys) (p # ps)"
    by (simp only: starts_with_take append_Cons)
  with Cons show ?case
    by (simp add: occ_la_def count_from_occurrences peek_take)
qed

lemma peek_append_Cons: "peek (p # ps) ((x # xs) @ ys) = x # peek ps (xs @ ys)"
  by simp

lemma peek_append_Nil: "peek ps ([] @ ys) = peek ps ys"
  by simp

lemma occurrences_skip: "k \<le> occurrences n ys \<Longrightarrow> k \<le> occurrences n (xs @ ys)"
  by (induction xs) auto

lemma occurrences_here:
  assumes "n \<noteq> []" and "k \<le> occurrences n ys"
  shows "Suc k \<le> occurrences n (n @ ys)"
proof -
  obtain p ps where n: "n = p # ps"
    using assms(1) by (cases n) auto
  have "starts_with (n @ ys) n"
    by (simp add: starts_with_take)
  moreover have "k \<le> occurrences n (ps @ ys)"
    using assms(2) by (rule occurrences_skip)
  ultimately show ?thesis
    by (simp add: n)
qed

text \<open>
  Two rewriting steps evaluate \<open>occurrences\<close> on a prompt: the first cuts the
  concatenation into its chunks, each with the text it can see; the second scans the chunks.
\<close>

lemmas chunk_simps =
  buildClothingPrompt_def buildCapPrompt_def buildMugPrompt_def
  buildStickerPadPrompt_def buildToteBagPrompt_def buildGenericPrompt_def
  colorDescription_of_def designPreservation_of_def
  Let_def option.case if_True if_False
  append_assoc append_Nil append_is_Nil_conv list.distinct simp_thms
  occurrences_append peek_append_Cons peek_append_Nil peek.simps

lemmas scan_simps =
  occ_la_def occurrences_count_from
  append.simps count_from.simps bump.simps starts_with.simps
  char.inject list.inject list.distinct simp_thms add_0 add_Suc add_0_right add_Suc_right

section \<open>Properties of the prompt builder\<close>

text \<open>The name and the template of each member of the enum.\<close>


lemma getProductName_enum:
  "getProductName HOODIE = ''hoodie''"
  "getProductName FACECAP = ''face cap or baseball cap''"
  "getProductName SHIRT = ''t-shirt or shirt''"
  "getProductName MUG = ''ceramic mug''"
  "getProductName STICKER_PAD = ''sticker pad or notepad''"
  "getProductName TANK_TOP = ''tank top''"
  "getProductName LONG_SLEEVE = ''long sleeve shirt''"
  "getProductName SWEATSHIRT = ''sweatshirt''"
  "getProductName JACKET = ''jacket''"
  "getProductName TOTE_BAG = ''tote bag''"
  by (simp_all add: getProductName_def names_def
      HOODIE_def FACECAP_def SHIRT_def MUG_def STICKER_PAD_def TANK_TOP_def LONG_SLEEVE_def
      SWEATSHIRT_def JACKET_def TOTE_BAG_def)

lemma buildPrompt_enum:
  "buildPrompt HOODIE col hasDesign =
     buildClothingPrompt HOODIE (colorDescription_of col) (designPreservation_of hasDesign)"
  "buildPrompt FACECAP col hasDesign =
     buildCapPrompt (colorDescription_of col) (designPreservation_of hasDesign)"
  "buildPrompt SHIRT col hasDesign =
     buildClothingPrompt SHIRT (colorDescription_of col) (designPreservation_of hasDesign)"
  "buildPrompt MUG col hasDesign =
     buildMugPrompt (colorDescription_of col) (designPreservation_of hasDesign)"
  "buildPrompt STICKER_PAD col hasDesign =
     buildStickerPadPrompt (colorDescription_of col) (designPreservation_of hasDesign)"
  "buildPrompt TANK_TOP col hasDesign =
     buildClothingPrompt TANK_TOP (colorDescription_of col) (designPreservation_of hasDesign)"
  "buildPrompt LONG_SLEEVE col hasDesign =
     buildClothingPrompt LONG_SLEEVE (colorDescription_of col) (designPreservation_of hasDesign)"
  "buildPrompt SWEATSHIRT col hasDesign =
     buildClothingPrompt SWEATSHIRT (colorDescription_of col) (designPreservation_of hasDesign)"
  "buildPrompt JACKET col hasDesign =
     buildClothingPrompt JACKET (colorDescription_of col) (designPreservation_of hasDesign)"
  "buildPrompt TOTE_BAG col hasDesign =
     buildToteBagPrompt (colorDescription_of col) (designPreservation_of hasDesign)"
  by (simp_all add: buildPrompt_def Let_def
      HOODIE_def FACECAP_def SHIRT_def MUG_def STICKER_PAD_def TANK_TOP_def LONG_SLEEVE_def
      SWEATSHIRT_def JACKET_def TOTE_BAG_def)

text \<open>
  Every other string takes the generic template, under the name \<^verbatim>\<open>product\<close> or under
  the printed form of a member inherited from \<^verbatim>\<open>Object.prototype\<close>.
\<close>

lemma buildPrompt_other:
  "cat \<notin> set product_types \<Longrightarrow>
     buildPrompt cat col hasDesign =
     buildGenericPrompt cat (colorDescription_of col) (designPreservation_of hasDesign)"
  by (simp add: buildPrompt_def Let_def product_types_def)

lemma getProductName_other:
  assumes "cat \<notin> set product_types"
  shows "getProductName cat \<in>
    {''product'',
     ''[object Object]'',
     ''function Object() { [native code] }'',
     ''function __defineGetter__() { [native code] }'',
     ''function __defineSetter__() { [native code] }'',
     ''function hasOwnProperty() { [native code] }'',
     ''function __lookupGetter__() { [native code] }'',
     ''function __lookupSetter__() { [native code] }'',
     ''function isPrototypeOf() { [native code] }'',
     ''function propertyIsEnumerable() { [native code] }'',
     ''function toString() { [native code] }'',
     ''function valueOf() { [native code] }'',
     ''function toLocaleString() { [native code] }''}"
proof -
  have "map_of names cat = None"
    using assms by (simp add: names_def product_types_def)
  then show ?thesis
    by (simp add: getProductName_def inherited_member_def prototype_methods_def)
qed

lemma navy_once_HOODIE:
  "occurrences ''navy blue'' (buildPrompt HOODIE (Some ''navy blue'') True) = Suc 0"
  by (simp only: buildPrompt_enum getProductName_enum chunk_simps) (simp only: scan_simps)

lemma navy_absent_HOODIE:
  "occurrences ''navy blue'' (buildPrompt HOODIE None True) = 0"
  by (simp only: buildPrompt_enum getProductName_enum chunk_simps) (simp only: scan_simps)

lemma fidelity_absent_HOODIE:
  "occurrences '', especially the specified color'' (buildPrompt HOODIE None True) = 0"
  by (simp only: buildPrompt_enum getProductName_enum chunk_simps) (simp only: scan_simps)

lemma navy_once_FACECAP:
  "occurrences ''navy blue'' (buildPrompt FACECAP (Some ''navy blue'') True) = Suc 0"
  by (simp only: buildPrompt_enum getProductName_enum chunk_simps) (simp only: scan_simps)

lemma navy_absent_FACECAP:
  "occurrences ''navy blue'' (buildPrompt FACECAP None True) = 0"
  by (simp only: buildPrompt_enum getProductName_enum chunk_simps) (simp only: scan_simps)

lemma fidelity_absent_FACECAP:
  "occurrences '', especially the specified color'' (buildPrompt FACECAP None True) = 0"
  by (simp only: buildPrompt_enum getProductName_enum chunk_simps) (simp only: scan_simps)

lemma navy_once_SHIRT:
  "occurrences ''navy blue'' (buildPrompt SHIRT (Some ''navy blue'') True) = Suc 0"
  by (simp only: buildPrompt_enum getProductName_enum chunk_simps) (simp only: scan_simps)

lemma navy_absent_SHIRT:
  "occurrences ''navy blue'' (buildPrompt SHIRT None True) = 0"
  by (simp only: buildPrompt_enum getProductName_enum chunk_simps) (simp only: scan_simps)

lemma fidelity_absent_SHIRT:
  "occurrences '', especially the specified color'' (buildPrompt SHIRT None True) = 0"
  by (simp only: buildPrompt_enum getProductName_enum chunk_simps) (simp only: scan_simps)

lemma navy_once_MUG:
  "occurrences ''navy blue'' (buildPrompt MUG (Some ''navy blue'') True) = Suc 0"
  by (simp only: buildPrompt_enum getProductName_enum chunk_simps) (simp only: scan_simps)

lemma navy_absent_MUG:
  "occurrences ''navy blue'' (buildPrompt MUG None True) = 0"
  by (simp only: buildPrompt_enum getProductName_enum chunk_simps) (simp only: scan_simps)

lemma fidelity_absent_MUG:
  "occurrences '', especially the specified color'' (buildPrompt MUG None True) = 0"
  by (simp only: buildPrompt_enum getProductName_enum chunk_simps) (simp only: scan_simps)

lemma navy_once_STICKER_PAD:
  "occurrences ''navy blue'' (buildPrompt STICKER_PAD (Some ''navy blue'') True) = Suc 0"
  by (simp only: buildPrompt_enum getProductName_enum chunk_simps) (simp only: scan_simps)

lemma navy_absent_STICKER_PAD:
  "occurrences ''navy blue'' (buildPrompt STICKER_PAD None True) = 0"
  by (simp only: buildPrompt_enum getProductName_enum chunk_simps) (simp only: scan_simps)

lemma fidelity_absent_STICKER_PAD:
  "occurrences '', especially the specified color'' (buildPrompt STICKER_PAD None True) = 0"
  by (simp only: buildPrompt_enum getProductName_enum chunk_simps) (simp only: scan_simps)

lemma navy_once_TANK_TOP:
  "occurrences ''navy blue'' (buildPrompt TANK_TOP (Some ''navy blue'') True) = Suc 0"
  by (simp only: buildPrompt_enum getProductName_enum chunk_simps) (simp only: scan_simps)

lemma navy_absent_TANK_TOP:
  "occurrences ''navy blue'' (buildPrompt TANK_TOP None True) = 0"
  by (simp only: buildPrompt_enum getProductName_enum chunk_simps) (simp only: scan_simps)

lemma fidelity_absent_TANK_TOP:
  "occurrences '', especially the specified color'' (buildPrompt TANK_TOP None True) = 0"
  by (simp only: buildPrompt_enum getProductName_enum chunk_simps) (simp only: scan_simps)

lemma navy_once_LONG_SLEEVE:
  "occurrences ''navy blue'' (buildPrompt LONG_SLEEVE (Some ''navy blue'') True) = Suc 0"
  by (simp only: buildPrompt_enum getProductName_enum chunk_simps) (simp only: scan_simps)

lemma navy_absent_LONG_SLEEVE:
  "occurrences ''navy blue'' (buildPrompt LONG_SLEEVE None True) = 0"
  by (simp only: buildPrompt_enum getProductName_enum chunk_simps) (simp only: scan_simps)

lemma fidelity_absent_LONG_SLEEVE:
  "occurrences '', especially the specified color'' (buildPrompt LONG_SLEEVE None True) = 0"
  by (simp only: buildPrompt_enum getProductName_enum chunk_simps) (simp only: scan_simps)

lemma navy_once_SWEATSHIRT:
  "occurrences ''navy blue'' (buildPrompt SWEATSHIRT (Some ''navy blue'') True) = Suc 0"
  by (simp only: buildPrompt_enum getProductName_enum chunk_simps) (simp only: scan_simps)

lemma navy_absent_SWEATSHIRT:
  "occurrences ''navy blue'' (buildPrompt SWEATSHIRT None True) = 0"
  by (simp only: buildPrompt_enum getProductName_enum chunk_simps) (simp only: scan_simps)

lemma fidelity_absent_SWEATSHIRT:
  "occurrences '', especially the specified color'' (buildPrompt SWEATSHIRT None True) = 0"
  by (simp only: buildPrompt_enum getProductName_enum chunk_simps) (simp only: scan_simps)

lemma navy_once_JACKET:
  "occurrences ''navy blue'' (buildPrompt JACKET (Some ''navy blue'') True) = Suc 0"
  by (simp only: buildPrompt_enum getProductName_enum chunk_simps) (simp only: scan_simps)

lemma navy_absent_JACKET:
  "occurrences ''navy blue'' (buildPrompt JACKET None True) = 0"
  by (simp only: buildPrompt_enum getProductName_enum chunk_simps) (simp only: scan_simps)

lemma fidelity_absent_JACKET:
  "occurrences '', especially the specified color'' (buildPrompt JACKET None True) = 0"
  by (simp only: buildPrompt_enum getProductName_enum chunk_simps) (simp only: scan_simps)

lemma navy_once_TOTE_BAG:
  "occurrences ''navy blue'' (buildPrompt TOTE_BAG (Some ''navy blue'') True) = Suc 0"
  by (simp only: buildPrompt_enum getProductName_enum chunk_simps) (simp only: scan_simps)

lemma navy_absent_TOTE_BAG:
  "occurrences ''navy blue'' (buildPrompt TOTE_BAG None True) = 0"
  by (simp only: buildPrompt_enum getProductName_enum chunk_simps) (simp only: scan_simps)

lemma fidelity_absent_TOTE_BAG:
  "occurrences '', especially the specified color'' (buildPrompt TOTE_BAG None True) = 0"
  by (simp only: buildPrompt_enum getProductName_enum chunk_simps) (simp only: scan_simps)

lemma navy_once_generic_product:
  assumes "getProductName cat = ''product''"
  shows "occurrences ''navy blue'' (buildGenericPrompt cat (colorDescription_of (Some ''navy blue'')) (designPreservation_of True)) = Suc 0"
  by (simp only: assms chunk_simps) (simp only: scan_simps)

lemma navy_absent_generic_product:
  assumes "getProductName cat = ''product''"
  shows "occurrences ''navy blue'' (buildGenericPrompt cat (colorDescription_of None) (designPreservation_of True)) = 0"
  by (simp only: assms chunk_simps) (simp only: scan_simps)

lemma fidelity_absent_generic_product:
  assumes "getProductName cat = ''product''"
  shows "occurrences '', especially the specified color'' (buildGenericPrompt cat (colorDescription_of None) (designPreservation_of True)) = 0"
  by (simp only: assms chunk_simps) (simp only: scan_simps)

lemma navy_once_generic_prototype:
  assumes "getProductName cat = ''[object Object]''"
  shows "occurrences ''navy blue'' (buildGenericPrompt cat (colorDescription_of (Some ''navy blue'')) (designPreservation_of True)) = Suc 0"
  by (simp only: assms chunk_simps) (simp only: scan_simps)

lemma navy_absent_generic_prototype:
  assumes "getProductName cat = ''[object Object]''"
  shows "occurrences ''navy blue'' (buildGenericPrompt cat (colorDescription_of None) (designPreservation_of True)) = 0"
  by (simp only: assms chunk_simps) (simp only: scan_simps)

lemma fidelity_absent_generic_prototype:
  assumes "getProductName cat = ''[object Object]''"
  shows "occurrences '', especially the specified color'' (buildGenericPrompt cat (colorDescription_of None) (designPreservation_of True)) = 0"
  by (simp only: assms chunk_simps) (simp only: scan_simps)

lemma navy_once_generic_constructor:
  assumes "getProductName cat = ''function Object() { [native code] }''"
  shows "occurrences ''navy blue'' (buildGenericPrompt cat (colorDescription_of (Some ''navy blue'')) (designPreservation_of True)) = Suc 0"
  by (simp only: assms chunk_simps) (simp only: scan_simps)

lemma navy_absent_generic_constructor:
  assumes "getProductName cat = ''function Object() { [native code] }''"
  shows "occurrences ''navy blue'' (buildGenericPrompt cat (colorDescription_of None) (designPreservation_of True)) = 0"
  by (simp only: assms chunk_simps) (simp only: scan_simps)

lemma fidelity_absent_generic_constructor:
  assumes "getProductName cat = ''function Object() { [native code] }''"
  shows "occurrences '', especially the specified color'' (buildGenericPrompt cat (colorDescription_of None) (designPreservation_of True)) = 0"
  by (simp only: assms chunk_simps) (simp only: scan_simps)

lemma navy_once_generic_defineGetter:
  assumes "getProductName cat = ''function __defineGetter__() { [native code] }''"
  shows "occurrences ''navy blue'' (buildGenericPrompt cat (colorDescription_of (Some ''navy blue'')) (designPreservation_of True)) = Suc 0"
  by (simp only: assms chunk_simps) (simp only: scan_simps)

lemma navy_absent_generic_defineGetter:
  assumes "getProductName cat = ''function __defineGetter__() { [native code] }''"
  shows "occurrences ''navy blue'' (buildGenericPrompt cat (colorDescription_of None) (designPreservation_of True)) = 0"
  by (simp only: assms chunk_simps) (simp only: scan_simps)

lemma fidelity_absent_generic_defineGetter:
  assumes "getProductName cat = ''function __defineGetter__() { [native code] }''"
  shows "occurrences '', especially the specified color'' (buildGenericPrompt cat (colorDescription_of None) (designPreservation_of True)) = 0"
  by (simp only: assms chunk_simps) (simp only: scan_simps)

lemma navy_once_generic_defineSetter:
  assumes "getProductName cat = ''function __defineSetter__() { [native code] }''"
  shows "occurrences ''navy blue'' (buildGenericPrompt cat (colorDescription_of (Some ''navy blue'')) (designPreservation_of True)) = Suc 0"
  by (simp only: assms chunk_simps) (simp only: scan_simps)

lemma navy_absent_generic_defineSetter:
  assumes "getProductName cat = ''function __defineSetter__() { [native code] }''"
  shows "occurrences ''navy blue'' (buildGenericPrompt cat (colorDescription_of None) (designPreservation_of True)) = 0"
  by (simp only: assms chunk_simps) (simp only: scan_simps)

lemma fidelity_absent_generic_defineSetter:
  assumes "getProductName cat = ''function __defineSetter__() { [native code] }''"
  shows "occurrences '', especially the specified color'' (buildGenericPrompt cat (colorDescription_of None) (designPreservation_of True)) = 0"
  by (simp only: assms chunk_simps) (simp only: scan_simps)

lemma navy_once_generic_hasOwnProperty:
  assumes "getProductName cat = ''function hasOwnProperty() { [native code] }''"
  shows "occurrences ''navy blue'' (buildGenericPrompt cat (colorDescription_of (Some ''navy blue'')) (designPreservation_of True)) = Suc 0"
  by (simp only: assms chunk_simps) (simp only: scan_simps)

lemma navy_absent_generic_hasOwnProperty:
  assumes "getProductName cat = ''function hasOwnProperty() { [native code] }''"
  shows "occurrences ''navy blue'' (buildGenericPrompt cat (colorDescription_of None) (designPreservation_of True)) = 0"
  by (simp only: assms chunk_simps) (simp only: scan_simps)

lemma fidelity_absent_generic_hasOwnProperty:
  assumes "getProductName cat = ''function hasOwnProperty() { [native code] }''"
  shows "occurrences '', especially the specified color'' (buildGenericPrompt cat (colorDescription_of None) (designPreservation_of True)) = 0"
  by (simp only: assms chunk_simps) (simp only: scan_simps)

lemma navy_once_generic_lookupGetter:
  assumes "getProductName cat = ''function __lookupGetter__() { [native code] }''"
  shows "occurrences ''navy blue'' (buildGenericPrompt cat (colorDescription_of (Some ''navy blue'')) (designPreservation_of True)) = Suc 0"
  by (simp only: assms chunk_simps) (simp only: scan_simps)

lemma navy_absent_generic_lookupGetter:
  assumes "getProductName cat = ''function __lookupGetter__() { [native code] }''"
  shows "occurrences ''navy blue'' (buildGenericPrompt cat (colorDescription_of None) (designPreservation_of True)) = 0"
  by (simp only: assms chunk_simps) (simp only: scan_simps)

lemma fidelity_absent_generic_lookupGetter:
  assumes "getProductName cat = ''function __lookupGetter__() { [native code] }''"
  shows "occurrences '', especially the specified color'' (buildGenericPrompt cat (colorDescription_of None) (designPreservation_of True)) = 0"
  by (simp only: assms chunk_simps) (simp only: scan_simps)

lemma navy_once_generic_lookupSetter:
  assumes "getProductName cat = ''function __lookupSetter__() { [native code] }''"
  shows "occurrences ''navy blue'' (buildGenericPrompt cat (colorDescription_of (Some ''navy blue'')) (designPreservation_of True)) = Suc 0"
  by (simp only: assms chunk_simps) (simp only: scan_simps)

lemma navy_absent_generic_lookupSetter:
  assumes "getProductName cat = ''function __lookupSetter__() { [native code] }''"
  shows "occurrences ''navy blue'' (buildGenericPrompt cat (colorDescription_of None) (designPreservation_of True)) = 0"
  by (simp only: assms chunk_simps) (simp only: scan_simps)

lemma fidelity_absent_generic_lookupSetter:
  assumes "getProductName cat = ''function __lookupSetter__() { [native code] }''"
  shows "occurrences '', especially the specified color'' (buildGenericPrompt cat (colorDescription_of None) (designPreservation_of True)) = 0"
  by (simp only: assms chunk_simps) (simp only: scan_simps)

lemma navy_once_generic_isPrototypeOf:
  assumes "getProductName cat = ''function isPrototypeOf() { [native code] }''"
  shows "occurrences ''navy blue'' (buildGenericPrompt cat (colorDescription_of (Some ''navy blue'')) (designPreservation_of True)) = Suc 0"
  by (simp only: assms chunk_simps) (simp only: scan_simps)

lemma navy_absent_generic_isPrototypeOf:
  assumes "getProductName cat = ''function isPrototypeOf() { [native code] }''"
  shows "occurrences ''navy blue'' (buildGenericPrompt cat (colorDescription_of None) (designPreservation_of True)) = 0"
  by (simp only: assms chunk_simps) (simp only: scan_simps)

lemma fidelity_absent_generic_isPrototypeOf:
  assumes "getProductName cat = ''function isPrototypeOf() { [native code] }''"
  shows "occurrences '', especially the specified color'' (buildGenericPrompt cat (colorDescription_of None) (designPreservation_of True)) = 0"
  by (simp only: assms chunk_simps) (simp only: scan_simps)

lemma navy_once_generic_propertyIsEnumerable:
  assumes "getProductName cat = ''function propertyIsEnumerable() { [native code] }''"
  shows "occurrences ''navy blue'' (buildGenericPrompt cat (colorDescription_of (Some ''navy blue'')) (designPreservation_of True)) = Suc 0"
  by (simp only: assms chunk_simps) (simp only: scan_simps)

lemma navy_absent_generic_propertyIsEnumerable:
  assumes "getProductName cat = ''function propertyIsEnumerable() { [native code] }''"
  shows "occurrences ''navy blue'' (buildGenericPrompt cat (colorDescription_of None) (designPreservation_of True)) = 0"
  by (simp only: assms chunk_simps) (simp only: scan_simps)

lemma fidelity_absent_generic_propertyIsEnumerable:
  assumes "getProductName cat = ''function propertyIsEnumerable() { [native code] }''"
  shows "occurrences '', especially the specified color'' (buildGenericPrompt cat (colorDescription_of None) (designPreservation_of True)) = 0"
  by (simp only: assms chunk_simps) (simp only: scan_simps)

lemma navy_once_generic_toString:
  assumes "getProductName cat = ''function toString() { [native code] }''"
  shows "occurrences ''navy blue'' (buildGenericPrompt cat (colorDescription_of (Some ''navy blue'')) (designPreservation_of True)) = Suc 0"
  by (simp only: assms chunk_simps) (simp only: scan_simps)

lemma navy_absent_generic_toString:
  assumes "getProductName cat = ''function toString() { [native code] }''"
  shows "occurrences ''navy blue'' (buildGenericPrompt cat (colorDescription_of None) (designPreservation_of True)) = 0"
  by (simp only: assms chunk_simps) (simp only: scan_simps)

lemma fidelity_absent_generic_toString:
  assumes "getProductName cat = ''function toString() { [native code] }''"
  shows "occurrences '', especially the specified color'' (buildGenericPrompt cat (colorDescription_of None) (designPreservation_of True)) = 0"
  by (simp only: assms chunk_simps) (simp only: scan_simps)

lemma navy_once_generic_valueOf:
  assumes "getProductName cat = ''function valueOf() { [native code] }''"
  shows "occurrences ''navy blue'' (buildGenericPrompt cat (colorDescription_of (Some ''navy blue'')) (designPreservation_of True)) = Suc 0"
  by (simp only: assms chunk_simps) (simp only: scan_simps)

lemma navy_absent_generic_valueOf:
  assumes "getProductName cat = ''function valueOf() { [native code] }''"
  shows "occurrences ''navy blue'' (buildGenericPrompt cat (colorDescription_of None) (designPreservation_of True)) = 0"
  by (simp only: assms chunk_simps) (simp only: scan_simps)

lemma fidelity_absent_generic_valueOf:
  assumes "getProductName cat = ''function valueOf() { [native code] }''"
  shows "occurrences '', especially the specified color'' (buildGenericPrompt cat (colorDescription_of None) (designPreservation_of True)) = 0"
  by (simp only: assms chunk_simps) (simp only: scan_simps)

lemma navy_once_generic_toLocaleString:
  assumes "getProductName cat = ''function toLocaleString() { [native code] }''"
  shows "occurrences ''navy blue'' (buildGenericPrompt cat (colorDescription_of (Some ''navy blue'')) (designPreservation_of True)) = Suc 0"
  by (simp only: assms chunk_simps) (simp only: scan_simps)

lemma navy_absent_generic_toLocaleString:
  assumes "getProductName cat = ''function toLocaleString() { [native code] }''"
  shows "occurrences ''navy blue'' (buildGenericPrompt cat (colorDescription_of None) (designPreservation_of True)) = 0"
  by (simp only: assms chunk_simps) (simp only: scan_simps)

lemma fidelity_absent_generic_toLocaleString:
  assumes "getProductName cat = ''function toLocaleString() { [native code] }''"
  shows "occurrences '', especially the specified color'' (buildGenericPrompt cat (colorDescription_of None) (designPreservation_of True)) = 0"
  by (simp only: assms chunk_simps) (simp only: scan_simps)

lemma navy_once: "occurrences ''navy blue'' (buildPrompt cat (Some ''navy blue'') True) = Suc 0"
proof (cases "cat \<in> set product_types")
  case True
  then have "cat = HOODIE \<or> cat = FACECAP \<or> cat = SHIRT \<or> cat = MUG
      \<or> cat = STICKER_PAD \<or> cat = TANK_TOP \<or> cat = LONG_SLEEVE \<or> cat = SWEATSHIRT
      \<or> cat = JACKET \<or> cat = TOTE_BAG"
    by (simp add: product_types_def)
  then show ?thesis
    by (elim disjE)
      (simp_all only: navy_once_HOODIE navy_once_FACECAP navy_once_SHIRT navy_once_MUG navy_once_STICKER_PAD
        navy_once_TANK_TOP navy_once_LONG_SLEEVE navy_once_SWEATSHIRT navy_once_JACKET
        navy_once_TOTE_BAG)
next
  case False
  then have generic: "buildPrompt cat (Some ''navy blue'') True =
      buildGenericPrompt cat (colorDescription_of (Some ''navy blue'')) (designPreservation_of True)"
    by (rule buildPrompt_other)
  from False have "getProductName cat \<in>
    {''product'',
     ''[object Object]'',
     ''function Object() { [native code] }'',
     ''function __defineGetter__() { [native code] }'',
     ''function __defineSetter__() { [native code] }'',
     ''function hasOwnProperty() { [native code] }'',
     ''function __lookupGetter__() { [native code] }'',
     ''function __lookupSetter__() { [native code] }'',
     ''function isPrototypeOf() { [native code] }'',
     ''function propertyIsEnumerable() { [native code] }'',
     ''function toString() { [native code] }'',
     ''function valueOf() { [native code] }'',
     ''function toLocaleString() { [native code] }''}"
    by (rule getProductName_other)
  then show ?thesis
    unfolding generic
    by (auto simp: navy_once_generic_product navy_once_generic_prototype navy_once_generic_constructor
        navy_once_generic_defineGetter navy_once_generic_defineSetter
        navy_once_generic_hasOwnProperty navy_once_generic_lookupGetter
        navy_once_generic_lookupSetter navy_once_generic_isPrototypeOf
        navy_once_generic_propertyIsEnumerable navy_once_generic_toString
        navy_once_generic_valueOf navy_once_generic_toLocaleString)
qed

lemma navy_absent: "occurrences ''navy blue'' (buildPrompt cat None True) = 0"
proof (cases "cat \<in> set product_types")
  case True
  then have "cat = HOODIE \<or> cat = FACECAP \<or> cat = SHIRT \<or> cat = MUG
      \<or> cat = STICKER_PAD \<or> cat = TANK_TOP \<or> cat = LONG_SLEEVE \<or> cat = SWEATSHIRT
      \<or> cat = JACKET \<or> cat = TOTE_BAG"
    by (simp add: product_types_def)
  then show ?thesis
    by (elim disjE)
      (simp_all only: navy_absent_HOODIE navy_absent_FACECAP navy_absent_SHIRT navy_absent_MUG
        navy_absent_STICKER_PAD navy_absent_TANK_TOP navy_absent_LONG_SLEEVE
        navy_absent_SWEATSHIRT navy_absent_JACKET navy_absent_TOTE_BAG)
next
  case False
  then have generic: "buildPrompt cat None True =
      buildGenericPrompt cat (colorDescription_of None) (designPreservation_of True)"
    by (rule buildPrompt_other)
  from False have "getProductName cat \<in>
    {''product'',
     ''[object Object]'',
     ''function Object() { [native code] }'',
     ''function __defineGetter__() { [native code] }'',
     ''function __defineSetter__() { [native code] }'',
     ''function hasOwnProperty() { [native code] }'',
     ''function __lookupGetter__() { [native code] }'',
     ''function __lookupSetter__() { [native code] }'',
     ''function isPrototypeOf() { [native code] }'',
     ''function propertyIsEnumerable() { [native code] }'',
     ''function toString() { [native code] }'',
     ''function valueOf() { [native code] }'',
     ''function toLocaleString() { [native code] }''}"
    by (rule getProductName_other)
  then show ?thesis
    unfolding generic
    by (auto simp: navy_absent_generic_product navy_absent_generic_prototype
        navy_absent_generic_constructor navy_absent_generic_defineGetter
        navy_absent_generic_defineSetter navy_absent_generic_hasOwnProperty
        navy_absent_generic_lookupGetter navy_absent_generic_lookupSetter
        navy_absent_generic_isPrototypeOf navy_absent_generic_propertyIsEnumerable
        navy_absent_generic_toString navy_absent_generic_valueOf
        navy_absent_generic_toLocaleString)
qed

lemma fidelity_absent: "occurrences '', especially the specified color'' (buildPrompt cat None True) = 0"
proof (cases "cat \<in> set product_types")
  case True
  then have "cat = HOODIE \<or> cat = FACECAP \<or> cat = SHIRT \<or> cat = MUG
      \<or> cat = STICKER_PAD \<or> cat = TANK_TOP \<or> cat = LONG_SLEEVE \<or> cat = SWEATSHIRT
      \<or> cat = JACKET \<or> cat = TOTE_BAG"
    by (simp add: product_types_def)
  then show ?thesis
    by (elim disjE)
      (simp_all only: fidelity_absent_HOODIE fidelity_absent_FACECAP fidelity_absent_SHIRT
        fidelity_absent_MUG fidelity_absent_STICKER_PAD fidelity_absent_TANK_TOP
        fidelity_absent_LONG_SLEEVE fidelity_absent_SWEATSHIRT fidelity_absent_JACKET
        fidelity_absent_TOTE_BAG)
next
  case False
  then have generic: "buildPrompt cat None True =
      buildGenericPrompt cat (colorDescription_of None) (designPreservation_of True)"
    by (rule buildPrompt_other)
  from False have "getProductName cat \<in>
    {''product'',
     ''[object Object]'',
     ''function Object() { [native code] }'',
     ''function __defineGetter__() { [native code] }'',
     ''function __defineSetter__() { [native code] }'',
     ''function hasOwnProperty() { [native code] }'',
     ''function __lookupGetter__() { [native code] }'',
     ''function __lookupSetter__() { [native code] }'',
     ''function isPrototypeOf() { [native code] }'',
     ''function propertyIsEnumerable() { [native code] }'',
     ''function toString() { [native code] }'',
     ''function valueOf() { [native code] }'',
     ''function toLocaleString() { [native code] }''}"
    by (rule getProductName_other)
  then show ?thesis
    unfolding generic
    by (auto simp: fidelity_absent_generic_product fidelity_absent_generic_prototype
        fidelity_absent_generic_constructor fidelity_absent_generic_defineGetter
        fidelity_absent_generic_defineSetter fidelity_absent_generic_hasOwnProperty
        fidelity_absent_generic_lookupGetter fidelity_absent_generic_lookupSetter
        fidelity_absent_generic_isPrototypeOf fidelity_absent_generic_propertyIsEnumerable
        fidelity_absent_generic_toString fidelity_absent_generic_valueOf
        fidelity_absent_generic_toLocaleString)
qed

text \<open>Each template contains the colour description it is given, and the fidelity clause
  whenever that description is not empty.\<close>

lemma buildClothingPrompt_description: "str_includes (buildClothingPrompt pt cd dp) cd"
  unfolding buildClothingPrompt_def Let_def
  by (rule str_includes_here | rule str_includes_later)+

lemma buildClothingPrompt_fidelity:
  "cd \<noteq> [] \<Longrightarrow> str_includes (buildClothingPrompt pt cd dp) '', especially the specified color''"
  unfolding buildClothingPrompt_def Let_def
  by (simp only: simp_thms if_True) (rule str_includes_here | rule str_includes_later)+

lemma buildCapPrompt_description: "str_includes (buildCapPrompt cd dp) cd"
  unfolding buildCapPrompt_def Let_def
  by (rule str_includes_here | rule str_includes_later)+

lemma buildCapPrompt_fidelity:
  "cd \<noteq> [] \<Longrightarrow> str_includes (buildCapPrompt cd dp) '', especially the specified color''"
  unfolding buildCapPrompt_def Let_def
  by (simp only: simp_thms if_True) (rule str_includes_here | rule str_includes_later)+

lemma buildMugPrompt_description: "str_includes (buildMugPrompt cd dp) cd"
  unfolding buildMugPrompt_def Let_def
  by (rule str_includes_here | rule str_includes_later)+

lemma buildMugPrompt_fidelity:
  "cd \<noteq> [] \<Longrightarrow> str_includes (buildMugPrompt cd dp) '', especially the specified color''"
  unfolding buildMugPrompt_def Let_def
  by (simp only: simp_thms if_True) (rule str_includes_here | rule str_includes_later)+

lemma buildStickerPadPrompt_description: "str_includes (buildStickerPadPrompt cd dp) cd"
  unfolding buildStickerPadPrompt_def Let_def
  by (rule str_includes_here | rule str_includes_later)+

lemma buildStickerPadPrompt_fidelity:
  "cd \<noteq> [] \<Longrightarrow> str_includes (buildStickerPadPrompt cd dp) '', especially the specified color''"
  unfolding buildStickerPadPrompt_def Let_def
  by (simp only: simp_thms if_True) (rule str_includes_here | rule str_includes_later)+

lemma buildToteBagPrompt_description: "str_includes (buildToteBagPrompt cd dp) cd"
  unfolding buildToteBagPrompt_def Let_def
  by (rule str_includes_here | rule str_includes_later)+

lemma buildToteBagPrompt_fidelity:
  "cd \<noteq> [] \<Longrightarrow> str_includes (buildToteBagPrompt cd dp) '', especially the specified color''"
  unfolding buildToteBagPrompt_def Let_def
  by (simp only: simp_thms if_True) (rule str_includes_here | rule str_includes_later)+

lemma buildGenericPrompt_description: "str_includes (buildGenericPrompt pt cd dp) cd"
  unfolding buildGenericPrompt_def Let_def
  by (rule str_includes_here | rule str_includes_later)+

lemma buildGenericPrompt_fidelity:
  "cd \<noteq> [] \<Longrightarrow> str_includes (buildGenericPrompt pt cd dp) '', especially the specified color''"
  unfolding buildGenericPrompt_def Let_def
  by (simp only: simp_thms if_True) (rule str_includes_here | rule str_includes_later)+

lemma buildPrompt_description:
  "str_includes (buildPrompt cat col hasDesign) (colorDescription_of col)"
  by (simp add: buildPrompt_def Let_def
      buildClothingPrompt_description buildCapPrompt_description buildMugPrompt_description
      buildStickerPadPrompt_description buildToteBagPrompt_description
      buildGenericPrompt_description)

lemma buildPrompt_fidelity:
  assumes "colorDescription_of col \<noteq> []"
  shows "str_includes (buildPrompt cat col hasDesign) '', especially the specified color''"
  using assms
  by (simp add: buildPrompt_def Let_def
      buildClothingPrompt_fidelity buildCapPrompt_fidelity buildMugPrompt_fidelity
      buildStickerPadPrompt_fidelity buildToteBagPrompt_fidelity buildGenericPrompt_fidelity)

lemma colorDescription_navy: "colorDescription_of (Some ''navy blue'') = '' in navy blue color''"
  by (simp add: colorDescription_of_def)

text \<open>
  The single-template copy of the builder names the colour twice: in the description and
  in its closing clause.
\<close>

lemma buildPrompt_single_twice:
  assumes "c \<noteq> []"
  shows "2 \<le> occurrences c (buildPrompt_single cat (Some c) hasDesign)"
proof -
  have "Suc (Suc 0) \<le> occurrences c (buildPrompt_single cat (Some c) hasDesign)"
    unfolding buildPrompt_single_def Let_def colorDescription_of_def
    using assms
    by (simp only: option.case if_False append_assoc)
      (rule occurrences_here | rule occurrences_skip | rule le0 | assumption)+
  then show ?thesis by simp
qed

text \<open>
  C1, as the code has it. For every product type, the prompt built for the colour
  \<^verbatim>\<open>navy blue\<close> with \<^verbatim>\<open>hasDesign = true\<close> contains the descriptive clause
  \<^verbatim>\<open> in navy blue color\<close> and the fidelity clause \<^verbatim>\<open>, especially the specified color\<close>;
  the fidelity clause does not repeat the colour, so \<^verbatim>\<open>navy blue\<close> occurs exactly once.
  The prompt built without a colour contains neither \<^verbatim>\<open>navy blue\<close> nor the fidelity
  clause.
\<close>

theorem buildPrompt_color_clauses:
  "str_includes (buildPrompt cat (Some ''navy blue'') True) '' in navy blue color'' \<and>
   str_includes (buildPrompt cat (Some ''navy blue'') True) '', especially the specified color'' \<and>
   occurrences ''navy blue'' (buildPrompt cat (Some ''navy blue'') True) = 1 \<and>
   \<not> str_includes (buildPrompt cat None True) ''navy blue'' \<and>
   \<not> str_includes (buildPrompt cat None True) '', especially the specified color''"
proof -
  have "str_includes (buildPrompt cat (Some ''navy blue'') True) '' in navy blue color''"
    using buildPrompt_description [of cat "Some ''navy blue''" True]
    by (simp only: colorDescription_navy)
  moreover have "str_includes (buildPrompt cat (Some ''navy blue'') True)
      '', especially the specified color''"
    by (rule buildPrompt_fidelity) (simp add: colorDescription_navy)
  ultimately show ?thesis
    by (simp add: navy_once navy_absent fidelity_absent str_includes_occurrences)
qed

text \<open>
  The claim as the specification words it, that \<^verbatim>\<open>navy blue\<close> occurs at least twice,
  fails for the hoodie prompt.
\<close>

theorem buildPrompt_navy_blue_twice_counterexample:
  "occurrences ''navy blue'' (buildPrompt HOODIE (Some ''navy blue'') True) < 2"
  by (simp add: navy_once_HOODIE)

section \<open>Properties of base64\<close>

lemma index_of_nth: "distinct xs \<Longrightarrow> i < length xs \<Longrightarrow> index_of (xs ! i) xs = Some i"
proof (induction xs arbitrary: i)
  case Nil
  then show ?case by simp
next
  case (Cons x xs)
  show ?case
  proof (cases i)
    case 0
    then show ?thesis by simp
  next
    case (Suc j)
    with Cons.prems have "xs ! j \<noteq> x" and "index_of (xs ! j) xs = Some j"
      using Cons.IH [of j] by auto
    with Suc show ?thesis by simp
  qed
qed

lemma length_base64_alphabet: "length base64_alphabet = 64"
  by (simp add: base64_alphabet_def)

lemma distinct_base64_alphabet: "distinct base64_alphabet"
  by (simp add: base64_alphabet_def)

lemma base64_char_in_alphabet: "base64_char i \<in> set base64_alphabet"
  unfolding base64_char_def by (rule nth_mem) (simp add: length_base64_alphabet)

lemma pad_not_in_alphabet: "CHR ''='' \<notin> set base64_alphabet"
  by (simp add: base64_alphabet_def)

lemma base64_char_not_pad: "base64_char i \<noteq> CHR ''=''"
  using base64_char_in_alphabet [of i] pad_not_in_alphabet by auto

lemma base64_value_char: "base64_value (base64_char i) = Some (i mod 64)"
proof -
  have "CHR ''-'' \<notin> set base64_alphabet" and "CHR ''_'' \<notin> set base64_alphabet"
    by (simp_all add: base64_alphabet_def)
  then have "base64_char i \<noteq> CHR ''-''" and "base64_char i \<noteq> CHR ''_''"
    using base64_char_in_alphabet [of i] by auto
  moreover have "index_of (base64_char i) base64_alphabet = Some (i mod 64)"
    unfolding base64_char_def
    by (rule index_of_nth [OF distinct_base64_alphabet]) (simp add: length_base64_alphabet)
  ultimately show ?thesis
    by (simp add: base64_value_def)
qed

lemma set_base64_encode: "set (base64_encode b) \<subseteq> insert CHR ''='' (set base64_alphabet)"
  by (induction b rule: base64_encode.induct) (auto simp: base64_char_in_alphabet)

lemma base64_encode_chars:
  "CHR '','' \<notin> set (base64_encode b)" "CHR '':'' \<notin> set (base64_encode b)"
  "CHR 0x5C \<notin> set (base64_encode b)"
proof -
  have "CHR '','' \<notin> insert CHR ''='' (set base64_alphabet)"
    "CHR '':'' \<notin> insert CHR ''='' (set base64_alphabet)"
    "CHR 0x5C \<notin> insert CHR ''='' (set base64_alphabet)"
    by (simp_all add: base64_alphabet_def)
  then show "CHR '','' \<notin> set (base64_encode b)" "CHR '':'' \<notin> set (base64_encode b)"
    "CHR 0x5C \<notin> set (base64_encode b)"
    using set_base64_encode [of b] by blast+
qed

lemma unat_byte_less: "unat (a :: byte) < 256"
  using unsigned_less [of a] by simp

lemma byte_div4: "unat (a :: byte) div 4 < 64"
  using unat_byte_less [of a] by simp

lemma byte_div16: "unat (a :: byte) div 16 < 16"
  using unat_byte_less [of a] by simp

lemma byte_div64: "unat (a :: byte) div 64 < 4"
  using unat_byte_less [of a] by simp

lemma sextets_char: "i < 64 \<Longrightarrow> sextets (base64_char i # cs) = i # sextets cs"
  by (simp add: base64_value_char base64_char_not_pad)

lemma sextets_pad: "sextets (CHR ''='' # cs) = []"
  by simp

text \<open>The four sextets of a group are below 64, and give the three bytes back.\<close>

lemma sextet2_less: "unat (a :: byte) mod 4 * 16 + unat (b :: byte) div 16 < 64"
proof -
  have "unat a mod 4 < 4" by simp
  then show ?thesis
    using byte_div16 [of b] by linarith
qed

lemma sextet2_pad_less: "unat (a :: byte) mod 4 * 16 < 64"
proof -
  have "unat a mod 4 < 4" by simp
  then show ?thesis by linarith
qed

lemma sextet3_less: "unat (b :: byte) mod 16 * 4 + unat (c :: byte) div 64 < 64"
proof -
  have "unat b mod 16 < 16" by simp
  then show ?thesis
    using byte_div64 [of c] by linarith
qed

lemma sextet3_pad_less: "unat (b :: byte) mod 16 * 4 < 64"
proof -
  have "unat b mod 16 < 16" by simp
  then show ?thesis by linarith
qed

lemma byte1: "q < 16 \<Longrightarrow> of_nat (unat (a :: byte) div 4 * 4 + (unat a mod 4 * 16 + q) div 16) = a"
proof -
  assume "q < 16"
  then have "(unat a mod 4 * 16 + q) div 16 = unat a mod 4"
    by simp
  then show ?thesis by simp
qed

lemma byte2:
  "r < 4 \<Longrightarrow>
   of_nat ((p * 16 + unat (b :: byte) div 16) mod 16 * 16 + (unat b mod 16 * 4 + r) div 4) = b"
proof -
  assume "r < 4"
  then have "(unat b mod 16 * 4 + r) div 4 = unat b mod 16"
    by simp
  moreover have "(p * 16 + unat b div 16) mod 16 = unat b div 16"
    using byte_div16 [of b] by simp
  ultimately show ?thesis by simp
qed

lemma byte3: "of_nat ((q * 4 + unat (c :: byte) div 64) mod 4 * 64 + unat c mod 64) = c"
proof -
  have "(q * 4 + unat c div 64) mod 4 = unat c div 64"
    using byte_div64 [of c] by simp
  then show ?thesis by simp
qed

text \<open>The decoder never throws, and it inverts the encoder on every buffer.\<close>

lemma base64_decode_total: "base64_decode s \<noteq> None"
  by (simp add: base64_decode_def)

lemma bytes_of_encode: "bytes_of_sextets (sextets (base64_encode b)) = b"
proof (induction b rule: base64_encode.induct)
  case 1
  then show ?case by simp
next
  case (2 a)
  have "of_nat (unat a div 4 * 4 + (unat a mod 4 * 16 + 0) div 16) = a"
    by (rule byte1) simp
  then have b1: "of_nat (unat a div 4 * 4 + unat a mod 4 * 16 div 16) = a"
    by simp
  show ?case
    by (simp only: base64_encode.simps sextets_char sextets_pad bytes_of_sextets.simps
        byte_div4 sextet2_pad_less b1)
next
  case (3 a b)
  have b1: "of_nat (unat a div 4 * 4 + (unat a mod 4 * 16 + unat b div 16) div 16) = a"
    by (rule byte1) (rule byte_div16)
  have "of_nat ((unat a mod 4 * 16 + unat b div 16) mod 16 * 16 + (unat b mod 16 * 4 + 0) div 4) = b"
    by (rule byte2) simp
  then have b2: "of_nat ((unat a mod 4 * 16 + unat b div 16) mod 16 * 16 + unat b mod 16 * 4 div 4) = b"
    by simp
  show ?case
    by (simp only: base64_encode.simps sextets_char sextets_pad bytes_of_sextets.simps
        byte_div4 sextet2_less sextet3_pad_less b1 b2)
next
  case (4 a b c rest)
  have b1: "of_nat (unat a div 4 * 4 + (unat a mod 4 * 16 + unat b div 16) div 16) = a"
    by (rule byte1) (rule byte_div16)
  have b2: "of_nat ((unat a mod 4 * 16 + unat b div 16) mod 16 * 16
      + (unat b mod 16 * 4 + unat c div 64) div 4) = b"
    by (rule byte2) (rule byte_div64)
  have b3: "of_nat ((unat b mod 16 * 4 + unat c div 64) mod 4 * 64 + unat c mod 64) = c"
    by (rule byte3)
  have s4: "unat c mod 64 < 64"
    by simp
  show ?case
    by (simp only: base64_encode.simps append_Cons append_Nil sextets_char
        bytes_of_sextets.simps byte_div4 sextet2_less sextet3_less s4 b1 b2 b3 "4.IH")
qed

lemma base64_decode_encode: "base64_decode (base64_encode b) = Some b"
  by (simp add: base64_decode_def bytes_of_encode)

section \<open>Properties of input normalisation\<close>

lemma str_includes_char: "str_includes s [c] \<longleftrightarrow> c \<in> set s"
  by (induction s) auto

lemma starts_with_set: "starts_with s n \<Longrightarrow> set n \<subseteq> set s"
  by (induction s n rule: starts_with.induct) auto

lemma starts_with_append: "starts_with (n @ s) n"
  by (simp add: starts_with_take)

lemma split_on_absent: "c \<notin> set s \<Longrightarrow> split_on c s = [s]"
  by (induction s) auto

lemma split_on_first: "c \<notin> set xs \<Longrightarrow> split_on c (xs @ c # ys) = xs # split_on c ys"
  by (induction xs) auto

lemma data_uri_payload:
  assumes "CHR '','' \<notin> set mime" and "CHR '','' \<notin> set payload"
  shows "nth_opt (split_on CHR '','' (''data:'' @ mime @ '','' @ payload)) 1 = Some payload"
proof -
  have "CHR '','' \<notin> set (''data:'' @ mime)"
    using assms(1) by simp
  then have "split_on CHR '','' ((''data:'' @ mime) @ CHR '','' # payload)
      = (''data:'' @ mime) # split_on CHR '','' payload"
    by (rule split_on_first)
  then show ?thesis
    using assms(2) by (simp add: split_on_absent)
qed

lemma base64_encode_not_data_uri: "\<not> starts_with (base64_encode b) ''data:''"
proof
  assume "starts_with (base64_encode b) ''data:''"
  then have "set ''data:'' \<subseteq> set (base64_encode b)"
    by (rule starts_with_set)
  then show False
    using base64_encode_chars(2) [of b] by simp
qed

lemma normalize_Text:
  "normalizeImageInput decode fs (Text s) =
     (if starts_with s ''data:'' then
        buffer_from_base64 decode (nth_opt (split_on CHR '','' s) 1)
      else (case (if \<not> str_includes s ''/'' \<and> \<not> str_includes s backslash then decode s
                  else None) of
              Some b \<Rightarrow> Inr b
            | None \<Rightarrow> readFile fs s))"
  by (simp add: normalizeImageInput_def)

text \<open>
  The branch for a text without path separators, for any decoder: the decoded buffer is
  returned, and only a decoder that throws lets the text be read as a file path.
\<close>

lemma normalize_bare_text:
  assumes "\<not> starts_with s ''data:''" and "\<not> str_includes s ''/''"
    and "\<not> str_includes s backslash"
  shows "normalizeImageInput decode fs (Text s) =
     (case decode s of Some b \<Rightarrow> Inr b | None \<Rightarrow> readFile fs s)"
  using assms by (simp add: normalize_Text)

lemma normalize_total_decoder:
  assumes "\<not> starts_with s ''data:''" and "\<not> str_includes s ''/''"
    and "\<not> str_includes s backslash" and "decode s = Some b"
  shows "normalizeImageInput decode fs (Text s) = Inr b"
  using assms by (simp add: normalize_Text)

text \<open>
  With the platform's decoder, which never throws, the \<^verbatim>\<open>catch\<close> is never entered: a text
  without path separators is decoded whatever it is, and the file system is not consulted.
\<close>

lemma normalize_never_reads_file:
  assumes "\<not> starts_with s ''data:''" and "\<not> str_includes s ''/''"
    and "\<not> str_includes s backslash"
  shows "normalizeImageInput base64_decode fs (Text s) = Inr (bytes_of_sextets (sextets s))"
  using assms by (simp add: normalize_Text base64_decode_def)

text \<open>
  C2. The claim is that a text without path separators which fails to decode as base64 is
  read as a file path, and the comment in the \<^verbatim>\<open>catch\<close> block says the same. The code
  does not do it: for the file name \<^verbatim>\<open>photo.png\<close>, with a readable file of that name, the
  decoder skips the dot and returns the six bytes that \<^verbatim>\<open>photopng\<close> encodes; the
  contents of the file are not returned.
\<close>

theorem normalize_file_name_is_decoded:
  "\<not> starts_with ''photo.png'' ''data:'' \<and> \<not> str_includes ''photo.png'' ''/'' \<and>
   \<not> str_includes ''photo.png'' backslash \<and>
   readFile [''photo.png'' \<mapsto> [1, 2]] ''photo.png'' = Inr [1, 2] \<and>
   normalizeImageInput base64_decode [''photo.png'' \<mapsto> [1, 2]] (Text ''photo.png'')
     = Inr [0xa6, 0x1a, 0x2d, 0xa2, 0x99, 0xe0]"
  by (simp add: normalize_Text backslash_def readFile_def base64_decode_def base64_value_def
      base64_alphabet_def)

text \<open>
  C3, as the code has it. The invalid-input error is raised exactly for an input that is
  neither a buffer nor a string. A text that reaches the file-path branch and names an
  unreadable file fails with the error of \<^verbatim>\<open>fs.readFile\<close>.
\<close>

theorem normalize_failures:
  "(normalizeImageInput decode fs img = Inl (Error invalid_image_input) \<longleftrightarrow> img = Neither) \<and>
   (\<not> starts_with s ''data:'' \<and>
    (str_includes s ''/'' \<or> str_includes s backslash \<or> decode s = None) \<and> fs s = None
    \<longrightarrow> normalizeImageInput decode fs (Text s) = Inl (ReadFileError s))"
proof -
  have "normalizeImageInput decode fs img = Inl (Error invalid_image_input) \<longleftrightarrow> img = Neither"
    by (cases img)
      (auto simp: normalizeImageInput_def buffer_from_base64_def readFile_def
        split: option.splits if_splits)
  moreover have "normalizeImageInput decode fs (Text s) = Inl (ReadFileError s)"
    if "\<not> starts_with s ''data:''"
      and "str_includes s ''/'' \<or> str_includes s backslash \<or> decode s = None"
      and "fs s = None"
    using that by (auto simp: normalize_Text readFile_def)
  ultimately show ?thesis by blast
qed

theorem normalize_failures_witness:
  "normalizeImageInput base64_decode Map.empty (Text ''missing/file.png'')
     = Inl (ReadFileError ''missing/file.png'') \<and>
   normalizeImageInput base64_decode Map.empty Neither = Inl (Error invalid_image_input)"
  using normalize_failures [of base64_decode Map.empty Neither "''missing/file.png''"]
  by simp

text \<open>
  The claim as worded, that an unreadable path fails with the invalid-input error, fails:
  the error is the one of the file system.
\<close>

theorem normalize_unreadable_path_counterexample:
  "normalizeImageInput base64_decode Map.empty (Text ''missing/file.png'')
     \<noteq> Inl (Error invalid_image_input)"
  by (simp add: normalize_Text readFile_def)

lemma normalize_Binary: "normalizeImageInput decode fs (Binary b) = Inr b"
  by (simp add: normalizeImageInput_def)

lemma normalize_data_uri:
  assumes dec: "decode (base64_encode b) = Some b" and header: "CHR '','' \<notin> set header"
  shows "normalizeImageInput decode fs (Text (''data:'' @ header @ '','' @ base64_encode b)) = Inr b"
proof -
  have "starts_with (''data:'' @ (header @ '','' @ base64_encode b)) ''data:''"
    by (rule starts_with_append)
  moreover have "nth_opt (split_on CHR '','' (''data:'' @ header @ '','' @ base64_encode b)) 1
      = Some (base64_encode b)"
    using header base64_encode_chars(1) by (rule data_uri_payload)
  ultimately show ?thesis
    by (simp only: normalize_Text if_True buffer_from_base64_def option.case dec)
qed

lemma normalize_bare_base64:
  assumes dec: "decode (base64_encode b) = Some b"
    and slash: "\<not> str_includes (base64_encode b) ''/''"
  shows "normalizeImageInput decode fs (Text (base64_encode b)) = Inr b"
proof -
  have "\<not> str_includes (base64_encode b) backslash"
    using base64_encode_chars(3) [of b] by (simp add: backslash_def str_includes_char)
  with assms base64_encode_not_data_uri [of b] show ?thesis
    by (simp add: normalize_Text)
qed

text \<open>With the decoder \<open>base64_decode\<close> the round trip holds for every buffer.\<close>

lemma normalize_round_trip_base64_decode:
  "CHR '','' \<notin> set header \<Longrightarrow>
     normalizeImageInput base64_decode fs (Text (''data:'' @ header @ '','' @ base64_encode b)) = Inr b"
  "\<not> str_includes (base64_encode b) ''/'' \<Longrightarrow>
     normalizeImageInput base64_decode fs (Text (base64_encode b)) = Inr b"
  by (rule normalize_data_uri normalize_bare_base64, rule base64_decode_encode, assumption)+

text \<open>
  C9. A buffer is returned as it is. For a decoder that inverts the encoder on \<open>b\<close>, a data
  URI whose header has no comma and whose payload is the base64 text of \<open>b\<close> normalises to
  \<open>b\<close>, and so does the bare base64 text of \<open>b\<close> when it contains no \<^verbatim>\<open>/\<close>.
\<close>

theorem normalize_round_trip:
  "normalizeImageInput decode fs (Binary b) = Inr b \<and>
   (decode (base64_encode b) = Some b \<and> CHR '','' \<notin> set header
    \<longrightarrow> normalizeImageInput decode fs (Text (''data:'' @ header @ '','' @ base64_encode b)) = Inr b) \<and>
   (decode (base64_encode b) = Some b \<and> \<not> str_includes (base64_encode b) ''/''
    \<longrightarrow> normalizeImageInput decode fs (Text (base64_encode b)) = Inr b)"
  using normalize_Binary normalize_data_uri normalize_bare_base64 by blast

theorem normalize_round_trip_witness:
  "base64_encode [77, 97, 110] = ''TWFu'' \<and>
   normalizeImageInput base64_decode Map.empty (Binary [77, 97, 110]) = Inr [77, 97, 110] \<and>
   normalizeImageInput base64_decode Map.empty (Text ''data:image/png;base64,TWFu'') = Inr [77, 97, 110] \<and>
   normalizeImageInput base64_decode Map.empty (Text ''TWFu'') = Inr [77, 97, 110]"
proof -
  have enc: "base64_encode [77, 97, 110] = ''TWFu''"
    by (simp add: base64_char_def base64_alphabet_def)
  have dec: "base64_decode ''TWFu'' = Some [77, 97, 110]"
    by (simp add: base64_decode_def base64_value_def base64_alphabet_def)
  show ?thesis
    using normalize_round_trip [of base64_decode Map.empty "[77, 97, 110]" "''image/png;base64''"]
    unfolding enc dec by simp
qed


section \<open>Properties of the provider factory\<close>

text \<open>
  C6. \<^verbatim>\<open>createAIProvider\<close> returns the adapter of each of the four names, returns an
  adapter for no other string, and fails for every other string with the error
  \<^verbatim>\<open>Unsupported provider: <name>\<close>.
\<close>

theorem createAIProvider_closed:
  "createAIProvider ''nanobanana'' = Inr NanoBananaProvider \<and>
   createAIProvider ''openai'' = Inr OpenAIProvider \<and>
   createAIProvider ''stability'' = Inr StabilityAIProvider \<and>
   createAIProvider ''replicate'' = Inr ReplicateProvider \<and>
   ((\<exists>a. createAIProvider s = Inr a) \<longleftrightarrow>
      s \<in> {''nanobanana'', ''openai'', ''stability'', ''replicate''}) \<and>
   (s \<notin> {''nanobanana'', ''openai'', ''stability'', ''replicate''}
      \<longrightarrow> createAIProvider s = Inl (Error (''Unsupported provider: '' @ s)))"
  by (simp add: createAIProvider_def)

theorem createAIProvider_closed_witness:
  "''midjourney'' \<notin> {''nanobanana'', ''openai'', ''stability'', ''replicate''} \<and>
   createAIProvider ''midjourney'' = Inl (Error ''Unsupported provider: midjourney'')"
  using createAIProvider_closed [of "''midjourney''"] by simp

section \<open>Properties of the adapters\<close>

text \<open>
  C4. Called with an empty credential, each of the four adapters fails with its own
  message, which names the environment variable to set, and the trace of requests and
  delays is returned as it was given: no request is issued.
\<close>

theorem empty_credential_fails_fast:
  "generateImage OpenAIProvider decode net prompt referenceImage [] tr
     = Some (Inl (Error openai_missing_key), tr) \<and>
   generateImage StabilityAIProvider decode net prompt referenceImage [] tr
     = Some (Inl (Error stability_missing_key), tr) \<and>
   generateImage NanoBananaProvider decode net prompt referenceImage [] tr
     = Some (Inl (Error nanobanana_missing_key), tr) \<and>
   generateImage ReplicateProvider decode net prompt referenceImage [] tr
     = Some (Inl (Error replicate_missing_key), tr) \<and>
   str_includes openai_missing_key ''OPENAI_API_KEY'' \<and>
   str_includes stability_missing_key ''STABILITY_API_KEY'' \<and>
   str_includes nanobanana_missing_key ''GOOGLE_AI_API_KEY'' \<and>
   str_includes nanobanana_missing_key ''GEMINI_API_KEY'' \<and>
   str_includes replicate_missing_key ''REPLICATE_API_TOKEN''"
proof -
  have "generateImage OpenAIProvider decode net prompt referenceImage [] tr
      = Some (Inl (Error openai_missing_key), tr)"
    by (simp add: generateImage_def OpenAIProvider_generateImage_def)
  moreover have "generateImage StabilityAIProvider decode net prompt referenceImage [] tr
      = Some (Inl (Error stability_missing_key), tr)"
    by (simp add: generateImage_def StabilityAIProvider_generateImage_def)
  moreover have "generateImage NanoBananaProvider decode net prompt referenceImage [] tr
      = Some (Inl (Error nanobanana_missing_key), tr)"
    by (simp add: generateImage_def NanoBananaProvider_generateImage_def)
  moreover have "generateImage ReplicateProvider decode net prompt referenceImage [] tr
      = Some (Inl (Error replicate_missing_key), tr)"
    by (simp add: generateImage_def ReplicateProvider_generateImage_def)
  moreover have "str_includes openai_missing_key ''OPENAI_API_KEY''"
    by (simp add: openai_missing_key_def)
  moreover have "str_includes stability_missing_key ''STABILITY_API_KEY''"
    by (simp add: stability_missing_key_def)
  moreover have "str_includes nanobanana_missing_key ''GOOGLE_AI_API_KEY''"
    by (simp add: nanobanana_missing_key_def)
  moreover have "str_includes nanobanana_missing_key ''GEMINI_API_KEY''"
    by (simp add: nanobanana_missing_key_def)
  moreover have "str_includes replicate_missing_key ''REPLICATE_API_TOKEN''"
    by (simp add: replicate_missing_key_def)
  ultimately show ?thesis by blast
qed

subsection \<open>The polling loop\<close>

lemma fetches_append: "fetches (a @ b) = fetches a @ fetches b"
  by (induction a rule: fetches.induct) auto

lemma poll_done: "\<not> in_progress result \<Longrightarrow> poll net key pid result tr = Some (Inr result, tr)"
  by (subst poll.simps) simp

lemma poll_step:
  assumes "in_progress result"
    and "net (length (fetches tr)) (status_request key pid) = Response r"
    and "json r = Some result1"
  shows "poll net key pid result tr
    = poll net key pid result1 (tr @ [Sleep 1000, Fetch (status_request key pid)])"
  using assms by (subst poll.simps) (simp add: fetch_def fetches_append)

text \<open>
  If the first \<open>k\<close> answered statuses are in progress and the next one is not, the loop
  returns that one after exactly \<open>k\<close> rounds of one delay and one status request.
\<close>

lemma poll_rounds:
  assumes "\<forall>i<k. in_progress (J i)" and "\<not> in_progress (J k)"
    and "\<forall>i<k. \<exists>r. net (length (fetches tr) + i) (status_request key pid) = Response r
            \<and> json r = Some (J (Suc i))"
  shows "poll net key pid (J 0) tr
    = Some (Inr (J k), tr @ concat (replicate k [Sleep 1000, Fetch (status_request key pid)]))"
  using assms
proof (induction k arbitrary: J tr)
  case 0
  then show ?case by (simp add: poll_done)
next
  case (Suc k)
  let ?tr = "tr @ [Sleep 1000, Fetch (status_request key pid)]"
  from Suc.prems(1) have first: "in_progress (J 0)"
    by simp
  from Suc.prems(3) obtain r where r: "net (length (fetches tr)) (status_request key pid) = Response r"
    "json r = Some (J (Suc 0))"
    by fastforce
  have step: "poll net key pid (J 0) tr = poll net key pid (J (Suc 0)) ?tr"
    using first r by (rule poll_step)
  have len: "length (fetches ?tr) = Suc (length (fetches tr))"
    by (simp add: fetches_append)
  have "poll net key pid ((J \<circ> Suc) 0) ?tr
    = Some (Inr ((J \<circ> Suc) k), ?tr @ concat (replicate k [Sleep 1000, Fetch (status_request key pid)]))"
  proof (rule Suc.IH)
    show "\<forall>i<k. in_progress ((J \<circ> Suc) i)"
      using Suc.prems(1) by simp
    show "\<not> in_progress ((J \<circ> Suc) k)"
      using Suc.prems(2) by simp
    show "\<forall>i<k. \<exists>r. net (length (fetches ?tr) + i) (status_request key pid) = Response r
        \<and> json r = Some ((J \<circ> Suc) (Suc i))"
    proof (intro allI impI)
      fix i assume "i < k"
      then have "Suc i < Suc k" by simp
      with Suc.prems(3) obtain r' where
        "net (length (fetches tr) + Suc i) (status_request key pid) = Response r'"
        "json r' = Some (J (Suc (Suc i)))"
        by blast
      then show "\<exists>r. net (length (fetches ?tr) + i) (status_request key pid) = Response r
          \<and> json r = Some ((J \<circ> Suc) (Suc i))"
        by (auto simp: len)
    qed
  qed
  with step show ?case by simp
qed

text \<open>
  What the adapter does when the job ends as \<^verbatim>\<open>failed\<close> or as \<^verbatim>\<open>succeeded\<close>. With a
  credential, after the creation request is answered by a prediction, it waits 1000 ms and
  fetches the status again for as long as the status is \<^verbatim>\<open>starting\<close> or \<^verbatim>\<open>processing\<close>.
  When the first other status is \<^verbatim>\<open>failed\<close>, it fails with the remote error text
  (\<^verbatim>\<open>Unknown error\<close> when there is none) and issues no further request; when it is
  \<^verbatim>\<open>succeeded\<close> with a non-empty output, it fetches the first output URL and returns the
  bytes of that response.
\<close>

lemma replicate_polling:
  assumes "key \<noteq> []"
    and "net 0 (prediction_request key prompt (''data:image/png;base64,'' @ base64_encode img))
           = Response r0"
    and "ok r0" and "json r0 = Some (J 0)"
    and "\<forall>i<k. in_progress (J i)" and "\<not> in_progress (J k)"
    and "\<forall>i<k. \<exists>r. net (Suc i) (status_request key (id_text (J 0))) = Response r
            \<and> json r = Some (J (Suc i))"
  shows
    "(status (J k) = Some ''failed'' \<longrightarrow>
        ReplicateProvider_generateImage decode net prompt img key []
        = Some (Inl (Error (''Replicate prediction failed: '' @ remote_error (J k))),
            Fetch (prediction_request key prompt (''data:image/png;base64,'' @ base64_encode img))
            # concat (replicate k [Sleep 1000, Fetch (status_request key (id_text (J 0)))]))) \<and>
     (status (J k) = Some ''succeeded'' \<and> output_urls (J k) = Some (imageUrl # others)
        \<and> net (Suc k) (get_request imageUrl) = Response imageResponse \<longrightarrow>
        ReplicateProvider_generateImage decode net prompt img key []
        = Some (Inr (array_buffer imageResponse),
            Fetch (prediction_request key prompt (''data:image/png;base64,'' @ base64_encode img))
            # concat (replicate k [Sleep 1000, Fetch (status_request key (id_text (J 0)))])
            @ [Fetch (get_request imageUrl)]))"
proof -
  let ?create = "prediction_request key prompt (''data:image/png;base64,'' @ base64_encode img)"
  let ?rounds = "concat (replicate k [Sleep 1000, Fetch (status_request key (id_text (J 0)))])"
  have polls: "\<forall>i<k. \<exists>r. net (length (fetches [Fetch ?create]) + i)
      (status_request key (id_text (J 0))) = Response r \<and> json r = Some (J (Suc i))"
    using assms(7) by simp
  have poll: "poll net key (id_text (J 0)) (J 0) [Fetch ?create]
      = Some (Inr (J k), [Fetch ?create] @ ?rounds)"
    using assms(5,6) polls by (rule poll_rounds)
  have run: "ReplicateProvider_generateImage decode net prompt img key []
      = Some (finish_prediction net (J k) (Fetch ?create # ?rounds))"
    using assms(1-4) poll
    by (simp add: ReplicateProvider_generateImage_def fetch_def Let_def)
  have count: "length (fetches ?rounds) = k"
    by (induction k) simp_all
  show ?thesis
    by (auto simp: run finish_prediction_def fetch_def count)
qed

lemma replicate_polling_example:
  "ReplicateProvider_generateImage base64_decode
     (scripted [json_response (prediction ''starting'' None None),
                json_response (prediction ''processing'' None None),
                json_response (prediction ''succeeded'' (Some [''https://cdn/out.png'']) None),
                bytes_response [1, 2, 3]])
     ''a prompt'' [] ''token'' []
   = Some (Inr [1, 2, 3],
       [Fetch (prediction_request ''token'' ''a prompt'' ''data:image/png;base64,''),
        Sleep 1000, Fetch (status_request ''token'' ''p1''),
        Sleep 1000, Fetch (status_request ''token'' ''p1''),
        Fetch (get_request ''https://cdn/out.png'')]) \<and>
   ReplicateProvider_generateImage base64_decode
     (scripted [json_response (prediction ''starting'' None None),
                json_response (prediction ''failed'' None (Some ''out of memory''))])
     ''a prompt'' [] ''token'' []
   = Some (Inl (Error ''Replicate prediction failed: out of memory''),
       [Fetch (prediction_request ''token'' ''a prompt'' ''data:image/png;base64,''),
        Sleep 1000, Fetch (status_request ''token'' ''p1'')])"
proof -
  let ?J = "\<lambda>i::nat. if i = 0 then prediction ''starting'' None None
    else if i = 1 then prediction ''processing'' None None
    else prediction ''succeeded'' (Some [''https://cdn/out.png'']) None"
  let ?K = "\<lambda>i::nat. if i = 0 then prediction ''starting'' None None
    else prediction ''failed'' None (Some ''out of memory'')"
  have two: "\<And>P. (\<forall>i<2. P i) \<longleftrightarrow> P 0 \<and> P (Suc 0)"
    by (auto simp: less_Suc_eq numeral_2_eq_2)
  show ?thesis
    using replicate_polling [where key = "''token''" and prompt = "''a prompt''" and img = "[]"
        and net = "scripted [json_response (prediction ''starting'' None None),
                json_response (prediction ''processing'' None None),
                json_response (prediction ''succeeded'' (Some [''https://cdn/out.png'']) None),
                bytes_response [1, 2, 3]]"
        and J = ?J and k = 2 and imageUrl = "''https://cdn/out.png''" and others = "[]"
        and decode = base64_decode]
      replicate_polling [where key = "''token''" and prompt = "''a prompt''" and img = "[]"
        and net = "scripted [json_response (prediction ''starting'' None None),
                json_response (prediction ''failed'' None (Some ''out of memory''))]"
        and J = ?K and k = 1 and decode = base64_decode]
    by (simp add: two scripted_def json_response_def bytes_response_def prediction_def
        in_progress_def id_text_def remote_error_def numeral_2_eq_2)
qed

text \<open>
  C5. The claim is that every terminal failure status fails with the remote's error
  message. The code tests only \<^verbatim>\<open>failed\<close>. A job that ends as \<^verbatim>\<open>canceled\<close>, a status the
  adapter's own result type lists, is not treated as a failure: without an output the
  remote error text is dropped and the adapter fails with a fixed message, and with an
  output the adapter fetches it and returns it as a success.
\<close>

theorem replicate_canceled_not_a_failure:
  "ReplicateProvider_generateImage base64_decode
     (scripted [json_response (prediction ''canceled'' None (Some ''stopped by user''))])
     ''a prompt'' [] ''token'' []
   = Some (Inl (Error ''Replicate prediction did not return an image''),
       [Fetch (prediction_request ''token'' ''a prompt'' ''data:image/png;base64,'')]) \<and>
   \<not> str_includes ''Replicate prediction did not return an image'' ''stopped by user'' \<and>
   ReplicateProvider_generateImage base64_decode
     (scripted [json_response (prediction ''starting'' None None),
                json_response (prediction ''canceled'' (Some [''https://cdn/partial.png''])
                  (Some ''stopped by user'')),
                bytes_response [1, 2, 3]])
     ''a prompt'' [] ''token'' []
   = Some (Inr [1, 2, 3],
       [Fetch (prediction_request ''token'' ''a prompt'' ''data:image/png;base64,''),
        Sleep 1000, Fetch (status_request ''token'' ''p1''),
        Fetch (get_request ''https://cdn/partial.png'')])"
proof -
  let ?create = "Fetch (prediction_request ''token'' ''a prompt'' ''data:image/png;base64,'')"
  let ?canceled = "prediction ''canceled'' None (Some ''stopped by user'')"
  let ?partial = "prediction ''canceled'' (Some [''https://cdn/partial.png'']) (Some ''stopped by user'')"
  let ?net = "scripted [json_response (prediction ''starting'' None None), json_response ?partial,
    bytes_response [1, 2, 3]]"
  have "poll (scripted [json_response ?canceled]) ''token'' ''p1'' ?canceled [?create]
      = Some (Inr ?canceled, [?create])"
    by (rule poll_done) (simp add: in_progress_def prediction_def)
  then have first: "ReplicateProvider_generateImage base64_decode (scripted [json_response ?canceled])
      ''a prompt'' [] ''token'' []
    = Some (Inl (Error ''Replicate prediction did not return an image''), [?create])"
    by (simp add: ReplicateProvider_generateImage_def fetch_def scripted_def json_response_def
        id_text_def finish_prediction_def prediction_def)
  have "poll ?net ''token'' ''p1'' (prediction ''starting'' None None) [?create]
      = poll ?net ''token'' ''p1'' ?partial
          ([?create] @ [Sleep 1000, Fetch (status_request ''token'' ''p1'')])"
    by (rule poll_step [where r = "\<lparr>ok = True, json = Some ?partial, text_body = [],
        array_buffer = []\<rparr>"])
      (simp_all add: in_progress_def prediction_def scripted_def json_response_def)
  also have "\<dots> = Some (Inr ?partial, [?create] @ [Sleep 1000, Fetch (status_request ''token'' ''p1'')])"
    by (rule poll_done) (simp add: in_progress_def prediction_def)
  finally have "ReplicateProvider_generateImage base64_decode ?net ''a prompt'' [] ''token'' []
    = Some (Inr [1, 2, 3],
        [?create, Sleep 1000, Fetch (status_request ''token'' ''p1''),
         Fetch (get_request ''https://cdn/partial.png'')])"
    by (simp add: ReplicateProvider_generateImage_def fetch_def scripted_def json_response_def
        bytes_response_def id_text_def finish_prediction_def prediction_def)
  with first show ?thesis by simp
qed

section \<open>Properties of the facade\<close>

text \<open>
  C7. \<^verbatim>\<open>enhanceImage\<close> normalises the input; a failure there is the result and nothing
  is requested. Otherwise it calls the bound adapter once with the prompt built from the
  product type and the colour with \<^verbatim>\<open>hasDesign = true\<close>, the normalised bytes and the
  credential given at construction. A failure of the adapter is the result, unchanged and
  with the adapter's own trace; a call that does not return leaves \<^verbatim>\<open>enhanceImage\<close>
  without a result; and generated bytes are returned with the MIME type sniffed from them.
\<close>

theorem enhanceImage_pipeline:
  "(normalizeImageInput decode fs (input_image options) = Inl e \<longrightarrow>
      enhanceImage decode fs net self options tr = Some (Inl e, tr)) \<and>
   (normalizeImageInput decode fs (input_image options) = Inr imageBuffer \<longrightarrow>
      (generateImage (aiProvider self) decode net
          (buildPrompt (productType options) (color options) True) imageBuffer (apiKey self) tr = None
        \<longrightarrow> enhanceImage decode fs net self options tr = None) \<and>
      (generateImage (aiProvider self) decode net
          (buildPrompt (productType options) (color options) True) imageBuffer (apiKey self) tr
          = Some (Inl e', tr')
        \<longrightarrow> enhanceImage decode fs net self options tr = Some (Inl e', tr')) \<and>
      (generateImage (aiProvider self) decode net
          (buildPrompt (productType options) (color options) True) imageBuffer (apiKey self) tr
          = Some (Inr enhancedImage, tr')
        \<longrightarrow> enhanceImage decode fs net self options tr
          = Some (Inr \<lparr>result_image = enhancedImage, mimeType = detectMimeType enhancedImage\<rparr>, tr')))"
  by (simp add: enhanceImage_def and_then_def Let_def)

theorem enhanceImage_pipeline_witness:
  "new_MerchDesignEnhancer \<lparr>options_apiKey = ''key'', options_provider = None\<rparr>
     = Inr \<lparr>apiKey = ''key'', provider_name = ''nanobanana'', aiProvider = NanoBananaProvider\<rparr> \<and>
   enhanceImage base64_decode Map.empty (scripted [json_response (gemini_image ''iVBORw0K'')])
     \<lparr>apiKey = ''key'', provider_name = ''nanobanana'', aiProvider = NanoBananaProvider\<rparr>
     \<lparr>input_image = Binary [1, 2, 3], productType = SHIRT, color = Some ''red''\<rparr> []
   = Some (Inr \<lparr>result_image = png_bytes, mimeType = ''image/png''\<rparr>,
       [Fetch (gemini_request ''key'' (buildPrompt SHIRT (Some ''red'') True) ''AQID'')]) \<and>
   enhanceImage base64_decode Map.empty (scripted [json_response (gemini_image ''iVBORw0K'')])
     \<lparr>apiKey = ''key'', provider_name = ''nanobanana'', aiProvider = NanoBananaProvider\<rparr>
     \<lparr>input_image = Text ''missing/file.png'', productType = SHIRT, color = Some ''red''\<rparr> []
   = Some (Inl (ReadFileError ''missing/file.png''), []) \<and>
   enhanceImage base64_decode Map.empty (scripted [json_response (gemini_image ''iVBORw0K'')])
     \<lparr>apiKey = [], provider_name = ''nanobanana'', aiProvider = NanoBananaProvider\<rparr>
     \<lparr>input_image = Binary [1, 2, 3], productType = SHIRT, color = Some ''red''\<rparr> []
   = Some (Inl (Error nanobanana_missing_key), [])"
proof -
  let ?net = "scripted [json_response (gemini_image ''iVBORw0K'')]"
  let ?self = "\<lparr>apiKey = ''key'', provider_name = ''nanobanana'', aiProvider = NanoBananaProvider\<rparr>"
  let ?nokey = "\<lparr>apiKey = [], provider_name = ''nanobanana'', aiProvider = NanoBananaProvider\<rparr>"
  let ?options = "\<lparr>input_image = Binary [1, 2, 3], productType = SHIRT, color = Some ''red''\<rparr>"
  let ?missing = "\<lparr>input_image = Text ''missing/file.png'', productType = SHIRT, color = Some ''red''\<rparr>"
  let ?prompt = "buildPrompt SHIRT (Some ''red'') True"
  have new: "new_MerchDesignEnhancer \<lparr>options_apiKey = ''key'', options_provider = None\<rparr> = Inr ?self"
    by (simp add: new_MerchDesignEnhancer_def createAIProvider_def)
  have binary: "normalizeImageInput base64_decode Map.empty (input_image ?options) = Inr [1, 2, 3]"
    by (simp add: normalizeImageInput_def)
  have unreadable: "normalizeImageInput base64_decode Map.empty (input_image ?missing)
      = Inl (ReadFileError ''missing/file.png'')"
    by (simp add: normalize_Text readFile_def)
  have enc: "base64_encode [1, 2, 3] = ''AQID''"
    by (simp add: base64_char_def base64_alphabet_def)
  have dec: "base64_decode ''iVBORw0K'' = Some png_bytes"
    by (simp add: base64_decode_def base64_value_def base64_alphabet_def png_bytes_def)
  have generated: "generateImage (aiProvider ?self) base64_decode ?net
      (buildPrompt (productType ?options) (color ?options) True) [1, 2, 3] (apiKey ?self) []
    = Some (Inr png_bytes, [Fetch (gemini_request ''key'' ?prompt ''AQID'')])"
    unfolding generateImage_def NanoBananaProvider_generateImage_def enc
    by (simp add: fetch_def scripted_def json_response_def gemini_image_def image_part_data_def
        find_image_part_def buffer_from_base64_def dec)
  have refused: "generateImage (aiProvider ?nokey) base64_decode ?net
      (buildPrompt (productType ?options) (color ?options) True) [1, 2, 3] (apiKey ?nokey) []
    = Some (Inl (Error nanobanana_missing_key), [])"
    by (simp add: generateImage_def NanoBananaProvider_generateImage_def)
  have png: "detectMimeType png_bytes = ''image/png''"
    by (simp add: detectMimeType_def png_bytes_def at_simps)
  have "enhanceImage base64_decode Map.empty ?net ?self ?options []
      = Some (Inr \<lparr>result_image = png_bytes, mimeType = ''image/png''\<rparr>,
          [Fetch (gemini_request ''key'' ?prompt ''AQID'')])"
    using enhanceImage_pipeline [where decode = base64_decode and fs = Map.empty and net = ?net
        and self = ?self and options = ?options and tr = "[]" and imageBuffer = "[1, 2, 3]"
        and enhancedImage = png_bytes
        and tr' = "[Fetch (gemini_request ''key'' ?prompt ''AQID'')]"]
      binary generated
    by (simp only: png simp_thms)
  moreover have "enhanceImage base64_decode Map.empty ?net ?self ?missing []
      = Some (Inl (ReadFileError ''missing/file.png''), [])"
    using enhanceImage_pipeline [where decode = base64_decode and fs = Map.empty and net = ?net
        and self = ?self and options = ?missing and tr = "[]"
        and e = "ReadFileError ''missing/file.png''"]
      unreadable
    by (simp only: simp_thms)
  moreover have "enhanceImage base64_decode Map.empty ?net ?nokey ?options []
      = Some (Inl (Error nanobanana_missing_key), [])"
    using enhanceImage_pipeline [where decode = base64_decode and fs = Map.empty and net = ?net
        and self = ?nokey and options = ?options and tr = "[]" and imageBuffer = "[1, 2, 3]"
        and e' = "Error nanobanana_missing_key" and tr' = "[]"]
      binary refused
    by (simp only: simp_thms)
  ultimately show ?thesis
    using new by simp
qed

end
